theory Spec2Isabelle
  imports Main "HOL-Library.Word"
begin

section \<open>JavaScript values and array reads\<close>

text \<open>
  The rules engine of \<^verbatim>\<open>utils/gameLogic\<close> works on \<^verbatim>\<open>string[][]\<close> grids. A read
  past the end of a JavaScript array does not fail: it yields \<^verbatim>\<open>undefined\<close>, and a
  property read on \<^verbatim>\<open>undefined\<close> throws a \<^verbatim>\<open>TypeError\<close>. Both are written
  out: a cell is a string or \<open>Undefined\<close>, and every function that reads the grid
  returns a sum whose left side is the exception thrown. \<open>Error\<close> is an
  \<^verbatim>\<open>Error\<close> with the given message and \<open>PostgrestError\<close> the error object a
  request to the store returns. A JavaScript \<^verbatim>\<open>number\<close> that is an index, a
  length or a counter is an \<open>int\<close>; fractional numbers are outside the model.
\<close>

datatype js_error = TypeError | RangeError | SyntaxError | Error string | PostgrestError string

datatype cell = Undefined | Str string

type_synonym grid = "cell list list"

text \<open>\<^verbatim>\<open>xs[i]\<close>: \<open>None\<close> stands for \<^verbatim>\<open>undefined\<close>.\<close>

definition index :: "'a list \<Rightarrow> int \<Rightarrow> 'a option" where
  "index xs i = (if 0 \<le> i \<and> i < int (length xs) then Some (xs ! nat i) else None)"

text \<open>\<^verbatim>\<open>grid[row][col]\<close>\<close>

definition cell_at :: "grid \<Rightarrow> int \<Rightarrow> int \<Rightarrow> js_error + cell" where
  "cell_at g row col =
     (case index g row of
        None \<Rightarrow> Inl TypeError
      | Some r \<Rightarrow> Inr (case index r col of None \<Rightarrow> Undefined | Some v \<Rightarrow> v))"

section \<open>Classic rules engine\<close>

text \<open>
  \<^verbatim>\<open>{ winner: PlayerSymbol | null; winningLine: number[][] | null }\<close>. \<open>None\<close> is
  \<^verbatim>\<open>null\<close>. The entries of a classic winning line are the two-element arrays
  \<^verbatim>\<open>[row, col]\<close>, modelled as pairs; the type of an entry is a parameter because
  \<^verbatim>\<open>checkGlobalWinner\<close> returns entries of another shape in the same structure.
\<close>

record 'e win_result =
  winner :: "string option"
  winningLine :: "'e list option"

text \<open>
  The innermost loop of \<^verbatim>\<open>checkWin\<close>, lines 16-22 (and 39-45, 62-68, 85-91):
  \<^verbatim>\<open>for (let i = 0; i < winLength; i++) { if (grid[r][c] !== symbol) { isWin = false; break; } line.push([r, c]); }\<close>
  over the cells \<open>(r, c)\<close> visited for \<open>i = 0, 1, ...\<close>. The result \<open>None\<close> is
  \<^verbatim>\<open>isWin = false\<close>, \<open>Some line\<close> is \<^verbatim>\<open>isWin = true\<close> with the line pushed.
\<close>

fun check_line :: "grid \<Rightarrow> string \<Rightarrow> (int \<times> int) list \<Rightarrow> (int \<times> int) list
    \<Rightarrow> js_error + (int \<times> int) list option" where
  "check_line g symbol [] line = Inr (Some line)"
| "check_line g symbol (p # rest) line =
     (case cell_at g (fst p) (snd p) of
        Inl e \<Rightarrow> Inl e
      | Inr v \<Rightarrow> if v \<noteq> Str symbol then Inr None
                 else check_line g symbol rest (line @ [p]))"

text \<open>The cells the inner loop visits from \<open>(row, col)\<close> in direction \<open>(dr, dc)\<close>.\<close>

definition line_cells :: "int \<Rightarrow> int \<times> int \<Rightarrow> int \<times> int \<Rightarrow> (int \<times> int) list" where
  "line_cells winLength d p =
     map (\<lambda>i. (fst p + i * fst d, snd p + i * snd d)) [0..winLength - 1]"

text \<open>
  The body of the two outer loops, lines 11-27: read the start cell, and when it is a
  non-empty string (\<^verbatim>\<open>symbol && symbol !== ''\<close>), run the inner loop.
\<close>

definition try_start :: "grid \<Rightarrow> int \<Rightarrow> int \<times> int \<Rightarrow> int \<times> int
    \<Rightarrow> js_error + (string \<times> (int \<times> int) list) option" where
  "try_start g winLength d p =
     (case cell_at g (fst p) (snd p) of
        Inl e \<Rightarrow> Inl e
      | Inr Undefined \<Rightarrow> Inr None
      | Inr (Str symbol) \<Rightarrow>
          if symbol \<noteq> [] then
            (case check_line g symbol (line_cells winLength d p) [] of
               Inl e \<Rightarrow> Inl e
             | Inr None \<Rightarrow> Inr None
             | Inr (Some line) \<Rightarrow> Inr (Some (symbol, line)))
          else Inr None)"

text \<open>
  The two outer loops over the start cells, in the order the loops visit them; the
  first start with \<^verbatim>\<open>isWin\<close> returns.
\<close>

fun scan :: "grid \<Rightarrow> int \<Rightarrow> int \<times> int \<Rightarrow> (int \<times> int) list
    \<Rightarrow> js_error + (string \<times> (int \<times> int) list) option" where
  "scan g winLength d [] = Inr None"
| "scan g winLength d (p # ps) =
     (case try_start g winLength d p of
        Inl e \<Rightarrow> Inl e
      | Inr (Some r) \<Rightarrow> Inr (Some r)
      | Inr None \<Rightarrow> scan g winLength d ps)"

text \<open>
  The start cells of the four scans, as \<open>(row, col)\<close>:
  rows (lines 9-10): \<^verbatim>\<open>row = 0 .. size-1\<close>, then \<^verbatim>\<open>col = 0 .. size-winLength\<close>;
  columns (lines 32-33): \<^verbatim>\<open>col = 0 .. size-1\<close>, then \<^verbatim>\<open>row = 0 .. size-winLength\<close>;
  diagonal down-right (lines 55-56): \<^verbatim>\<open>row, col = 0 .. size-winLength\<close>;
  diagonal down-left (lines 78-79): \<^verbatim>\<open>row = 0 .. size-winLength\<close>,
  \<^verbatim>\<open>col = winLength-1 .. size-1\<close>.
\<close>

definition row_starts :: "int \<Rightarrow> int \<Rightarrow> (int \<times> int) list" where
  "row_starts n winLength =
     concat (map (\<lambda>row. map (\<lambda>col. (row, col)) [0..n - winLength]) [0..n - 1])"

definition column_starts :: "int \<Rightarrow> int \<Rightarrow> (int \<times> int) list" where
  "column_starts n winLength =
     concat (map (\<lambda>col. map (\<lambda>row. (row, col)) [0..n - winLength]) [0..n - 1])"

definition diag_starts :: "int \<Rightarrow> int \<Rightarrow> (int \<times> int) list" where
  "diag_starts n winLength =
     concat (map (\<lambda>row. map (\<lambda>col. (row, col)) [0..n - winLength]) [0..n - winLength])"

definition anti_diag_starts :: "int \<Rightarrow> int \<Rightarrow> (int \<times> int) list" where
  "anti_diag_starts n winLength =
     concat (map (\<lambda>row. map (\<lambda>col. (row, col)) [winLength - 1..n - 1]) [0..n - winLength])"

definition no_win :: "'e win_result" where
  "no_win = \<lparr>winner = None, winningLine = None\<rparr>"

definition win :: "string \<times> 'e list \<Rightarrow> 'e win_result" where
  "win r = \<lparr>winner = Some (fst r), winningLine = Some (snd r)\<rparr>"

text \<open>\<^verbatim>\<open>ClassicGameLogic.checkWin\<close>, lines 5-101.\<close>

definition checkWin :: "grid \<Rightarrow> int \<Rightarrow> js_error + (int \<times> int) win_result" where
  "checkWin g winLength =
     (let n = int (length g) in
      case scan g winLength (0, 1) (row_starts n winLength) of
        Inl e \<Rightarrow> Inl e
      | Inr (Some r) \<Rightarrow> Inr (win r)
      | Inr None \<Rightarrow>
     (case scan g winLength (1, 0) (column_starts n winLength) of
        Inl e \<Rightarrow> Inl e
      | Inr (Some r) \<Rightarrow> Inr (win r)
      | Inr None \<Rightarrow>
     (case scan g winLength (1, 1) (diag_starts n winLength) of
        Inl e \<Rightarrow> Inl e
      | Inr (Some r) \<Rightarrow> Inr (win r)
      | Inr None \<Rightarrow>
     (case scan g winLength (1, -1) (anti_diag_starts n winLength) of
        Inl e \<Rightarrow> Inl e
      | Inr (Some r) \<Rightarrow> Inr (win r)
      | Inr None \<Rightarrow> Inr no_win))))"

subsection \<open>The scan as the specification words it\<close>

text \<open>
  A second description of \<^verbatim>\<open>checkWin\<close>, following the specification rather than the
  loops: the windows of \<open>w\<close> consecutive cells of an \<open>n \<times> n\<close> grid, horizontal ones
  first in row-major order, then vertical, then diagonal down-right, then diagonal
  down-left; a window is a run when its cells all hold the same non-empty string; the
  result is the first run in that order. It reads the grid with plain list indexing,
  which is meaningful because every window lies inside the grid.
\<close>

definition square :: "grid \<Rightarrow> bool" where
  "square g = list_all (\<lambda>row. length row = length g) g"

fun run_symbol :: "grid \<Rightarrow> (nat \<times> nat) list \<Rightarrow> string option" where
  "run_symbol g [] = None"
| "run_symbol g ((r, c) # rest) =
     (case g ! r ! c of
        Undefined \<Rightarrow> None
      | Str s \<Rightarrow>
          if s \<noteq> [] \<and> list_all (\<lambda>(r', c'). g ! r' ! c' = Str s) rest then Some s else None)"

fun first_run :: "grid \<Rightarrow> (nat \<times> nat) list list \<Rightarrow> (string \<times> (nat \<times> nat) list) option" where
  "first_run g [] = None"
| "first_run g (cells # rest) =
     (case run_symbol g cells of Some s \<Rightarrow> Some (s, cells) | None \<Rightarrow> first_run g rest)"

definition horizontal_windows :: "nat \<Rightarrow> nat \<Rightarrow> (nat \<times> nat) list list" where
  "horizontal_windows n w =
     [[(r, c + i). i \<leftarrow> [0..<w]]. r \<leftarrow> [0..<n], c \<leftarrow> [0..<n + 1 - w]]"

definition vertical_windows :: "nat \<Rightarrow> nat \<Rightarrow> (nat \<times> nat) list list" where
  "vertical_windows n w =
     [[(r + i, c). i \<leftarrow> [0..<w]]. c \<leftarrow> [0..<n], r \<leftarrow> [0..<n + 1 - w]]"

definition down_right_windows :: "nat \<Rightarrow> nat \<Rightarrow> (nat \<times> nat) list list" where
  "down_right_windows n w =
     [[(r + i, c + i). i \<leftarrow> [0..<w]]. r \<leftarrow> [0..<n + 1 - w], c \<leftarrow> [0..<n + 1 - w]]"

definition down_left_windows :: "nat \<Rightarrow> nat \<Rightarrow> (nat \<times> nat) list list" where
  "down_left_windows n w =
     [[(r + i, c - i). i \<leftarrow> [0..<w]]. r \<leftarrow> [0..<n + 1 - w], c \<leftarrow> [w - 1..<n]]"

definition coords :: "(nat \<times> nat) list \<Rightarrow> (int \<times> int) list" where
  "coords cells = map (\<lambda>(r, c). (int r, int c)) cells"

definition spec_checkWin :: "grid \<Rightarrow> nat \<Rightarrow> (int \<times> int) win_result" where
  "spec_checkWin g w =
     (case first_run g (horizontal_windows (length g) w @ vertical_windows (length g) w
                        @ down_right_windows (length g) w @ down_left_windows (length g) w) of
        None \<Rightarrow> no_win
      | Some (s, cells) \<Rightarrow> win (s, coords cells))"

text \<open>Auxiliary notions of the proofs: a coordinate inside a square grid, the cells of
  a line as naturals, the four scan directions, and a result that is a sound win.\<close>

definition in_grid :: "grid \<Rightarrow> int \<times> int \<Rightarrow> bool" where
  "in_grid g p = (0 \<le> fst p \<and> fst p < int (length g) \<and> 0 \<le> snd p \<and> snd p < int (length g))"

definition nat_cells :: "(int \<times> int) list \<Rightarrow> (nat \<times> nat) list" where
  "nat_cells ps = map (\<lambda>p. (nat (fst p), nat (snd p))) ps"

definition directions :: "(int \<times> int) set" where
  "directions = {(0, 1), (1, 0), (1, 1), (1, -1)}"

definition is_win_of :: "grid \<Rightarrow> int \<Rightarrow> (int \<times> int) win_result \<Rightarrow> bool" where
  "is_win_of g w res \<longleftrightarrow>
     (\<exists>s line d p. res = win (s, line) \<and> s \<noteq> [] \<and> d \<in> directions \<and> line = line_cells w d p \<and>
        (\<forall>q\<in>set line. in_grid g q \<and> g ! nat (fst q) ! nat (snd q) = Str s))"

subsection \<open>The loops stay inside a square grid\<close>

lemma square_row: "square g \<Longrightarrow> i < length g \<Longrightarrow> length (g ! i) = length g"
  by (simp add: square_def list_all_length)

lemma cell_at_in_grid:
  assumes "square g" and "in_grid g p"
  shows "cell_at g (fst p) (snd p) = Inr (g ! nat (fst p) ! nat (snd p))"
proof -
  have "nat (fst p) < length g"
    using assms(2) by (simp add: in_grid_def nat_less_iff)
  then have "length (g ! nat (fst p)) = length g"
    using assms(1) by (rule square_row [rotated])
  then show ?thesis
    using assms(2) by (simp add: cell_at_def index_def in_grid_def)
qed

lemma check_line_in_grid:
  assumes "square g" and "\<forall>p\<in>set ps. in_grid g p"
  shows "check_line g s ps line =
     Inr (if list_all (\<lambda>(r, c). g ! r ! c = Str s) (nat_cells ps) then Some (line @ ps) else None)"
  using assms(2)
proof (induction ps arbitrary: line)
  case Nil
  then show ?case by (simp add: nat_cells_def)
next
  case (Cons p ps)
  then show ?case
    using cell_at_in_grid [OF assms(1), of p]
    by (simp add: nat_cells_def)
qed

lemma line_cells_Cons:
  "1 \<le> w \<Longrightarrow> line_cells w d p = p # map (\<lambda>i. (fst p + i * fst d, snd p + i * snd d)) [1..w - 1]"
  by (simp add: line_cells_def upto_rec1 [of 0])

lemma try_start_in_grid:
  assumes "square g" and "1 \<le> w" and "\<forall>q\<in>set (line_cells w d p). in_grid g q"
  shows "try_start g w d p =
     Inr (case run_symbol g (nat_cells (line_cells w d p)) of
            None \<Rightarrow> None | Some s \<Rightarrow> Some (s, line_cells w d p))"
proof -
  let ?rest = "map (\<lambda>i. (fst p + i * fst d, snd p + i * snd d)) [1..w - 1]"
  have lc: "line_cells w d p = p # ?rest"
    using assms(2) by (rule line_cells_Cons)
  have p_in: "in_grid g p" and rest_in: "\<forall>q\<in>set ?rest. in_grid g q"
    using assms(3) unfolding lc by simp_all
  note c = cell_at_in_grid [OF assms(1) p_in]
  show ?thesis
  proof (cases "g ! nat (fst p) ! nat (snd p)")
    case Undefined
    then show ?thesis
      using c by (simp add: try_start_def lc nat_cells_def)
  next
    case (Str s)
    then show ?thesis
      using c check_line_in_grid [OF assms(1) rest_in, of s "[p]"]
      by (simp add: try_start_def lc nat_cells_def)
  qed
qed

lemma coords_nat_cells:
  "\<forall>q\<in>set ps. in_grid g q \<Longrightarrow> coords (nat_cells ps) = ps"
  by (induction ps) (simp_all add: coords_def nat_cells_def in_grid_def)

lemma scan_in_grid:
  assumes "square g" and "1 \<le> w"
    and "\<forall>p\<in>set starts. \<forall>q\<in>set (line_cells w d p). in_grid g q"
  shows "scan g w d starts =
     Inr (map_option (\<lambda>(s, cells). (s, coords cells))
            (first_run g (map (\<lambda>p. nat_cells (line_cells w d p)) starts)))"
  using assms(3)
proof (induction starts)
  case Nil
  then show ?case by simp
next
  case (Cons p starts)
  then show ?case
    using try_start_in_grid [OF assms(1,2), of d p] coords_nat_cells [of "line_cells w d p" g]
    by (simp split: option.split)
qed

lemma upto_upt: "[int a..int b - 1] = map int [a..<b]"
proof (induction b)
  case 0
  then show ?case by simp
next
  case (Suc b)
  show ?case
  proof (cases "a \<le> b")
    case True
    then have "[int a..int (Suc b) - 1] = [int a..int b - 1] @ [int b]"
      using upto_rec2 [of "int a" "int b"] by simp
    then show ?thesis using Suc True by simp
  next
    case False
    then show ?thesis by simp
  qed
qed

lemma upto_0_upt: "[0..int b - 1] = map int [0..<b]"
  using upto_upt [of 0 b] by simp

lemma upto_diff_upt: "[0..int n - int w] = map int [0..<n + 1 - w]"
proof (cases "w \<le> n + 1")
  case True
  then have e: "int n - int w = int (n + 1 - w) - 1" by simp
  show ?thesis unfolding e by (rule upto_0_upt)
next
  case False
  then show ?thesis by simp
qed

lemma upto_anti_upt: "1 \<le> w \<Longrightarrow> [int w - 1..int n - 1] = map int [w - 1..<n]"
  using upto_upt [of "w - 1" n] by simp

lemma nat_line_cells:
  "nat_cells (line_cells (int w) d (int r, int c)) =
     map (\<lambda>i. (nat (int r + int i * fst d), nat (int c + int i * snd d))) [0..<w]"
  by (simp add: nat_cells_def line_cells_def upto_0_upt comp_def)

lemma row_windows:
  "map (\<lambda>p. nat_cells (line_cells (int w) (0, 1) p)) (row_starts (int n) (int w)) = horizontal_windows n w"
  by (simp add: row_starts_def horizontal_windows_def upto_0_upt upto_diff_upt map_concat comp_def nat_line_cells nat_add_distrib)

lemma column_windows:
  "map (\<lambda>p. nat_cells (line_cells (int w) (1, 0) p)) (column_starts (int n) (int w)) = vertical_windows n w"
  by (simp add: column_starts_def vertical_windows_def upto_0_upt upto_diff_upt map_concat comp_def nat_line_cells nat_add_distrib)

lemma diag_windows:
  "map (\<lambda>p. nat_cells (line_cells (int w) (1, 1) p)) (diag_starts (int n) (int w)) = down_right_windows n w"
  by (simp add: diag_starts_def down_right_windows_def upto_0_upt upto_diff_upt map_concat comp_def nat_line_cells nat_add_distrib)

lemma anti_diag_windows:
  "1 \<le> w \<Longrightarrow> map (\<lambda>p. nat_cells (line_cells (int w) (1, -1) p)) (anti_diag_starts (int n) (int w)) = down_left_windows n w"
  by (simp add: anti_diag_starts_def down_left_windows_def upto_0_upt upto_diff_upt upto_anti_upt map_concat comp_def nat_line_cells nat_add_distrib nat_diff_distrib')

lemma first_run_append:
  "first_run g (xs @ ys) = (case first_run g xs of Some r \<Rightarrow> Some r | None \<Rightarrow> first_run g ys)"
  by (induction xs) (simp_all split: option.split)

lemma line_cells_set:
  "q \<in> set (line_cells w d p) \<longleftrightarrow> (\<exists>i. 0 \<le> i \<and> i < w \<and> q = (fst p + i * fst d, snd p + i * snd d))"
  by (auto simp: line_cells_def)

lemma row_starts_in_grid:
  "p \<in> set (row_starts n w) \<Longrightarrow> q \<in> set (line_cells w (0, 1) p) \<Longrightarrow> length g = nat n \<Longrightarrow> in_grid g q"
  by (auto simp: row_starts_def line_cells_set in_grid_def)

lemma column_starts_in_grid:
  "p \<in> set (column_starts n w) \<Longrightarrow> q \<in> set (line_cells w (1, 0) p) \<Longrightarrow> length g = nat n \<Longrightarrow> in_grid g q"
  by (auto simp: column_starts_def line_cells_set in_grid_def)

lemma diag_starts_in_grid:
  "p \<in> set (diag_starts n w) \<Longrightarrow> q \<in> set (line_cells w (1, 1) p) \<Longrightarrow> length g = nat n \<Longrightarrow> in_grid g q"
  by (auto simp: diag_starts_def line_cells_set in_grid_def)

lemma anti_diag_starts_in_grid:
  "p \<in> set (anti_diag_starts n w) \<Longrightarrow> q \<in> set (line_cells w (1, -1) p) \<Longrightarrow> length g = nat n \<Longrightarrow> in_grid g q"
  by (auto simp: anti_diag_starts_def line_cells_set in_grid_def)

lemma checkWin_refines:
  assumes sq: "square g" and w: "1 \<le> w"
  shows "checkWin g (int w) = Inr (spec_checkWin g w)"
proof -
  let ?n = "length g"
  have w': "1 \<le> int w" using w by simp
  have len: "length g = nat (int ?n)" by simp
  have rows: "scan g (int w) (0, 1) (row_starts (int ?n) (int w)) =
      Inr (map_option (\<lambda>(s, cells). (s, coords cells)) (first_run g (horizontal_windows ?n w)))"
    using scan_in_grid [OF sq w', of "row_starts (int ?n) (int w)" "(0, 1)"]
      row_starts_in_grid [OF _ _ len]
    by (simp add: row_windows)
  have cols: "scan g (int w) (1, 0) (column_starts (int ?n) (int w)) =
      Inr (map_option (\<lambda>(s, cells). (s, coords cells)) (first_run g (vertical_windows ?n w)))"
    using scan_in_grid [OF sq w', of "column_starts (int ?n) (int w)" "(1, 0)"]
      column_starts_in_grid [OF _ _ len]
    by (simp add: column_windows)
  have diag: "scan g (int w) (1, 1) (diag_starts (int ?n) (int w)) =
      Inr (map_option (\<lambda>(s, cells). (s, coords cells)) (first_run g (down_right_windows ?n w)))"
    using scan_in_grid [OF sq w', of "diag_starts (int ?n) (int w)" "(1, 1)"]
      diag_starts_in_grid [OF _ _ len]
    by (simp add: diag_windows)
  have anti: "scan g (int w) (1, -1) (anti_diag_starts (int ?n) (int w)) =
      Inr (map_option (\<lambda>(s, cells). (s, coords cells)) (first_run g (down_left_windows ?n w)))"
    using scan_in_grid [OF sq w', of "anti_diag_starts (int ?n) (int w)" "(1, -1)"]
      anti_diag_starts_in_grid [OF _ _ len]
    by (simp add: anti_diag_windows [OF w])
  show ?thesis
    unfolding checkWin_def Let_def rows cols diag anti spec_checkWin_def first_run_append
    by (simp split: option.split)
qed

lemma run_symbol_Some:
  "run_symbol g cells = Some s \<Longrightarrow> s \<noteq> [] \<and> (\<forall>(r, c)\<in>set cells. g ! r ! c = Str s)"
  by (cases "(g, cells)" rule: run_symbol.cases)
     (auto simp: list_all_iff split: cell.splits if_splits)

lemma scan_Some:
  "scan g w d starts = Inr (Some r) \<Longrightarrow> \<exists>p\<in>set starts. try_start g w d p = Inr (Some r)"
  by (induction starts) (auto split: sum.splits option.splits)

lemma try_start_Some:
  assumes "square g" and "1 \<le> w" and "\<forall>q\<in>set (line_cells w d p). in_grid g q"
    and "try_start g w d p = Inr (Some (s, line))"
  shows "line = line_cells w d p \<and> s \<noteq> [] \<and> (\<forall>q\<in>set line. in_grid g q \<and> g ! nat (fst q) ! nat (snd q) = Str s)"
proof -
  have rs: "run_symbol g (nat_cells (line_cells w d p)) = Some s" and l: "line = line_cells w d p"
    using assms(4) try_start_in_grid [OF assms(1-3)] by (auto split: option.splits)
  show ?thesis
    using run_symbol_Some [OF rs] assms(3) l by (auto simp: nat_cells_def)
qed

lemma scan_sound:
  assumes "square g" and "1 \<le> w"
    and "\<forall>p\<in>set starts. \<forall>q\<in>set (line_cells w d p). in_grid g q"
  shows "\<exists>res. scan g w d starts = Inr res \<and>
     (\<forall>s line. res = Some (s, line) \<longrightarrow>
        s \<noteq> [] \<and> (\<exists>p. line = line_cells w d p) \<and>
        (\<forall>q\<in>set line. in_grid g q \<and> g ! nat (fst q) ! nat (snd q) = Str s))"
proof -
  obtain res where res: "scan g w d starts = Inr res"
    using scan_in_grid [OF assms] by blast
  have "s \<noteq> [] \<and> (\<exists>p. line = line_cells w d p) \<and>
        (\<forall>q\<in>set line. in_grid g q \<and> g ! nat (fst q) ! nat (snd q) = Str s)"
    if "res = Some (s, line)" for s line
  proof -
    have "scan g w d starts = Inr (Some (s, line))"
      using res that by simp
    then obtain p where p: "p \<in> set starts" "try_start g w d p = Inr (Some (s, line))"
      using scan_Some by blast
    have "\<forall>q\<in>set (line_cells w d p). in_grid g q"
      using assms(3) p(1) by blast
    from try_start_Some [OF assms(1,2) this p(2)] show ?thesis
      by blast
  qed
  then show ?thesis using res by blast
qed

lemma scan_win:
  assumes "square g" and "1 \<le> w" and "d \<in> directions"
    and "\<forall>p\<in>set starts. \<forall>q\<in>set (line_cells w d p). in_grid g q"
  shows "\<exists>res. scan g w d starts = Inr res \<and>
     (case res of None \<Rightarrow> True | Some r \<Rightarrow> is_win_of g w (win r))"
proof -
  obtain res where res: "scan g w d starts = Inr res"
    and snd: "\<And>s line. res = Some (s, line) \<Longrightarrow>
        s \<noteq> [] \<and> (\<exists>p. line = line_cells w d p) \<and>
        (\<forall>q\<in>set line. in_grid g q \<and> g ! nat (fst q) ! nat (snd q) = Str s)"
    using scan_sound [OF assms(1,2,4)] by blast
  have "is_win_of g w (win r)" if "res = Some r" for r
  proof -
    obtain s line where r: "r = (s, line)" by (cases r)
    from snd [of s line] that r obtain p where
      "s \<noteq> []" "line = line_cells w d p"
      "\<forall>q\<in>set line. in_grid g q \<and> g ! nat (fst q) ! nat (snd q) = Str s"
      by blast
    then show ?thesis
      unfolding is_win_of_def r using assms(3) by blast
  qed
  then show ?thesis
    using res by (simp split: option.split)
qed

lemma row_starts_ok:
  "\<forall>p\<in>set (row_starts (int (length g)) w). \<forall>q\<in>set (line_cells w (0, 1) p). in_grid g q"
  using row_starts_in_grid [of _ "int (length g)" w _ g] by simp

lemma column_starts_ok:
  "\<forall>p\<in>set (column_starts (int (length g)) w). \<forall>q\<in>set (line_cells w (1, 0) p). in_grid g q"
  using column_starts_in_grid [of _ "int (length g)" w _ g] by simp

lemma diag_starts_ok:
  "\<forall>p\<in>set (diag_starts (int (length g)) w). \<forall>q\<in>set (line_cells w (1, 1) p). in_grid g q"
  using diag_starts_in_grid [of _ "int (length g)" w _ g] by simp

lemma anti_diag_starts_ok:
  "\<forall>p\<in>set (anti_diag_starts (int (length g)) w). \<forall>q\<in>set (line_cells w (1, -1) p). in_grid g q"
  using anti_diag_starts_in_grid [of _ "int (length g)" w _ g] by simp

lemma checkWin_result:
  assumes sq: "square g" and w: "1 \<le> w"
  shows "\<exists>res. checkWin g w = Inr res \<and> (res = no_win \<or> is_win_of g w res)"
proof -
  let ?n = "int (length g)"
  have d1: "(0, 1) \<in> directions" and d2: "(1, 0) \<in> directions"
    and d3: "(1, 1) \<in> directions" and d4: "(1, -1) \<in> directions"
    by (simp_all add: directions_def)
  obtain r1 where r1: "scan g w (0, 1) (row_starts ?n w) = Inr r1"
    and w1: "case r1 of None \<Rightarrow> True | Some r \<Rightarrow> is_win_of g w (win r)"
    using scan_win [OF sq w d1 row_starts_ok] by blast
  obtain r2 where r2: "scan g w (1, 0) (column_starts ?n w) = Inr r2"
    and w2: "case r2 of None \<Rightarrow> True | Some r \<Rightarrow> is_win_of g w (win r)"
    using scan_win [OF sq w d2 column_starts_ok] by blast
  obtain r3 where r3: "scan g w (1, 1) (diag_starts ?n w) = Inr r3"
    and w3: "case r3 of None \<Rightarrow> True | Some r \<Rightarrow> is_win_of g w (win r)"
    using scan_win [OF sq w d3 diag_starts_ok] by blast
  obtain r4 where r4: "scan g w (1, -1) (anti_diag_starts ?n w) = Inr r4"
    and w4: "case r4 of None \<Rightarrow> True | Some r \<Rightarrow> is_win_of g w (win r)"
    using scan_win [OF sq w d4 anti_diag_starts_ok] by blast
  consider (a) r where "r1 = Some r"
    | (b) r where "r1 = None" "r2 = Some r"
    | (c) r where "r1 = None" "r2 = None" "r3 = Some r"
    | (d) r where "r1 = None" "r2 = None" "r3 = None" "r4 = Some r"
    | (e) "r1 = None" "r2 = None" "r3 = None" "r4 = None"
    by (cases r1; cases r2; cases r3; cases r4) auto
  then show ?thesis
  proof cases
    case a
    then show ?thesis using r1 w1 by (simp add: checkWin_def)
  next
    case b
    then show ?thesis using r1 r2 w2 by (simp add: checkWin_def)
  next
    case c
    then show ?thesis using r1 r2 r3 w3 by (simp add: checkWin_def)
  next
    case d
    then show ?thesis using r1 r2 r3 r4 w4 by (simp add: checkWin_def)
  next
    case e
    then show ?thesis using r1 r2 r3 r4 by (simp add: checkWin_def)
  qed
qed

subsection \<open>Claims about \<^verbatim>\<open>checkWin\<close>\<close>

text \<open>
  C7. On a square grid and for a win length of at least one, \<^verbatim>\<open>checkWin\<close> returns
  what the specification's scan returns: the first run of \<open>w\<close> equal non-empty cells
  among the horizontal windows in row-major order, then the vertical ones, then the
  diagonal down-right ones, then the diagonal down-left ones. For the grid
  \<^verbatim>\<open>[[X,X,X],[O,O,''],['','','']]\<close> and win length 3 it returns winner \<^verbatim>\<open>X\<close> with the
  line \<^verbatim>\<open>[[0,0],[0,1],[0,2]]\<close>.
\<close>

theorem checkWin_scan_order:
  assumes "square g" and "1 \<le> w"
  shows "checkWin g (int w) = Inr (spec_checkWin g w) \<and>
         checkWin [[Str ''X'', Str ''X'', Str ''X''],
                   [Str ''O'', Str ''O'', Str []],
                   [Str [], Str [], Str []]] 3
           = Inr \<lparr>winner = Some ''X'', winningLine = Some [(0, 0), (0, 1), (0, 2)]\<rparr>"
proof
  show "checkWin g (int w) = Inr (spec_checkWin g w)"
    using assms by (rule checkWin_refines)
next
  show "checkWin [[Str ''X'', Str ''X'', Str ''X''],
                  [Str ''O'', Str ''O'', Str []],
                  [Str [], Str [], Str []]] 3
          = Inr \<lparr>winner = Some ''X'', winningLine = Some [(0, 0), (0, 1), (0, 2)]\<rparr>"
    by code_simp
qed

text \<open>
  The theorem at a 4 by 4 grid that holds a vertical run of \<^verbatim>\<open>X\<close> in column 0 and a
  horizontal run of \<^verbatim>\<open>O\<close> in row 3: the horizontal scan comes first, so the run of
  \<^verbatim>\<open>O\<close> is the one reported.
\<close>

theorem checkWin_scan_order_witness:
  "square [[Str ''X'', Str [], Str [], Str []],
           [Str ''X'', Str [], Str [], Str []],
           [Str ''X'', Str [], Str [], Str []],
           [Str [], Str ''O'', Str ''O'', Str ''O'']] \<and>
   (1::nat) \<le> 3 \<and>
   checkWin [[Str ''X'', Str [], Str [], Str []],
             [Str ''X'', Str [], Str [], Str []],
             [Str ''X'', Str [], Str [], Str []],
             [Str [], Str ''O'', Str ''O'', Str ''O'']] 3
     = Inr (spec_checkWin [[Str ''X'', Str [], Str [], Str []],
                           [Str ''X'', Str [], Str [], Str []],
                           [Str ''X'', Str [], Str [], Str []],
                           [Str [], Str ''O'', Str ''O'', Str ''O'']] 3) \<and>
   spec_checkWin [[Str ''X'', Str [], Str [], Str []],
                  [Str ''X'', Str [], Str [], Str []],
                  [Str ''X'', Str [], Str [], Str []],
                  [Str [], Str ''O'', Str ''O'', Str ''O'']] 3
     = \<lparr>winner = Some ''O'', winningLine = Some [(3, 1), (3, 2), (3, 3)]\<rparr>"
proof -
  let ?g = "[[Str ''X'', Str [], Str [], Str []],
             [Str ''X'', Str [], Str [], Str []],
             [Str ''X'', Str [], Str [], Str []],
             [Str [], Str ''O'', Str ''O'', Str ''O'']]"
  have sq: "square ?g"
    by (simp add: square_def)
  have w: "(1::nat) \<le> 3"
    by simp
  have spec: "spec_checkWin ?g 3 = \<lparr>winner = Some ''O'', winningLine = Some [(3, 1), (3, 2), (3, 3)]\<rparr>"
    by code_simp
  from checkWin_scan_order [OF sq w] have "checkWin ?g (int 3) = Inr (spec_checkWin ?g 3)"
    by (rule conjunct1)
  then show ?thesis
    using sq spec by simp
qed

text \<open>
  C1. For every square grid and every win length that \<^verbatim>\<open>checkWin\<close> is called
  with, \<^verbatim>\<open>checkWin\<close> returns either \<^verbatim>\<open>{winner: null, winningLine: null}\<close> or a
  winner \<open>s\<close> in \<^verbatim>\<open>{X, O}\<close> with a winning line of exactly \<open>winLength\<close> coordinate
  pairs: the consecutive cells \<open>(r + i * dr, c + i * dc)\<close>, \<open>i = 0 .. winLength - 1\<close>,
  of one row, one column or one diagonal, each inside the grid and holding \<open>s\<close>; a
  win is never backed by fewer than \<open>winLength\<close> equal non-empty cells. The win
  lengths of the program are at least 3 (the literal 3 of the Ultimate engine, the
  \<^verbatim>\<open>CHECK (win_length >= 3)\<close> of the table); the theorem holds from 1 on. The cells
  of a grid of the data model are \<^verbatim>\<open>''\<close>, \<^verbatim>\<open>X\<close> or \<^verbatim>\<open>O\<close>, which gives the
  winner's membership in \<^verbatim>\<open>{X, O}\<close>; on any other square grid the rest still holds
  and the winner is a non-empty cell value.
\<close>

theorem checkWin_line_sound:
  assumes "square g" and "1 \<le> winLength"
  shows "\<exists>res. checkWin g winLength = Inr res \<and>
     (res = no_win \<or>
      (\<exists>s line r c dr dc.
         res = \<lparr>winner = Some s, winningLine = Some line\<rparr> \<and>
         s \<noteq> [] \<and>
         ((\<forall>row\<in>set g. \<forall>v\<in>set row. v \<in> {Str [], Str ''X'', Str ''O''}) \<longrightarrow> s \<in> {''X'', ''O''}) \<and>
         int (length line) = winLength \<and>
         (dr, dc) \<in> {(0, 1), (1, 0), (1, 1), (1, -1)} \<and>
         line = map (\<lambda>i. (r + i * dr, c + i * dc)) [0..winLength - 1] \<and>
         (\<forall>(r', c')\<in>set line.
            0 \<le> r' \<and> r' < int (length g) \<and> 0 \<le> c' \<and> c' < int (length g) \<and>
            g ! nat r' ! nat c' = Str s)))"
proof -
  obtain res where res: "checkWin g winLength = Inr res"
    and alt: "res = no_win \<or> is_win_of g winLength res"
    using checkWin_result [OF assms] by blast
  show ?thesis
  proof (cases "res = no_win")
    case True
    then show ?thesis using res by blast
  next
    case False
    then obtain s line d p where win: "res = win (s, line)" "s \<noteq> []" "d \<in> directions"
      "line = line_cells winLength d p"
      and cells: "\<forall>q\<in>set line. in_grid g q \<and> g ! nat (fst q) ! nat (snd q) = Str s"
      using alt unfolding is_win_of_def by blast
    have len: "int (length line) = winLength"
      using win(4) assms(2) by (simp add: line_cells_def)
    have shape: "line = map (\<lambda>i. (fst p + i * fst d, snd p + i * snd d)) [0..winLength - 1]"
      using win(4) by (simp add: line_cells_def)
    have dir: "(fst d, snd d) \<in> {(0, 1), (1, 0), (1, 1), (1, -1)}"
      using win(3) by (simp add: directions_def)
    have inside: "\<forall>(r', c')\<in>set line.
            0 \<le> r' \<and> r' < int (length g) \<and> 0 \<le> c' \<and> c' < int (length g) \<and>
            g ! nat r' ! nat c' = Str s"
      using cells by (auto simp: in_grid_def)
    have sym: "s \<in> {''X'', ''O''}"
      if ok: "\<forall>row\<in>set g. \<forall>v\<in>set row. v \<in> {Str [], Str ''X'', Str ''O''}"
    proof -
      have "p \<in> set line"
        using win(4) assms(2) by (simp add: line_cells_Cons)
      then have pin: "in_grid g p" and ps: "g ! nat (fst p) ! nat (snd p) = Str s"
        using cells by blast+
      have r: "nat (fst p) < length g"
        using pin by (simp add: in_grid_def nat_less_iff)
      then have "length (g ! nat (fst p)) = length g"
        using assms(1) by (rule square_row [rotated])
      then have c: "nat (snd p) < length (g ! nat (fst p))"
        using pin by (simp add: in_grid_def nat_less_iff)
      have "g ! nat (fst p) \<in> set g"
        using r by simp
      moreover have "Str s \<in> set (g ! nat (fst p))"
        using c ps nth_mem by metis
      ultimately have "Str s \<in> {Str [], Str ''X'', Str ''O''}"
        using ok by blast
      then show ?thesis
        using win(2) by simp
    qed
    have "res = \<lparr>winner = Some s, winningLine = Some line\<rparr>"
      using win(1) by (simp add: win_def)
    then show ?thesis
      using res win(2) sym len dir shape inside by blast
  qed
qed

theorem checkWin_line_sound_witness:
  "square [[Str ''X'', Str ''X'', Str ''X''],
           [Str ''O'', Str ''O'', Str []],
           [Str [], Str [], Str []]] \<and>
   (1::int) \<le> 3 \<and>
   (\<exists>res. checkWin [[Str ''X'', Str ''X'', Str ''X''],
                     [Str ''O'', Str ''O'', Str []],
                     [Str [], Str [], Str []]] 3 = Inr res \<and>
      (res = no_win \<or>
       (\<exists>s line. res = \<lparr>winner = Some s, winningLine = Some line\<rparr> \<and> s \<noteq> [] \<and>
          int (length line) = 3)))"
proof -
  let ?g = "[[Str ''X'', Str ''X'', Str ''X''],
             [Str ''O'', Str ''O'', Str []],
             [Str [], Str [], Str []]]"
  have sq: "square ?g"
    by (simp add: square_def)
  have w: "(1::int) \<le> 3"
    by simp
  from checkWin_line_sound [OF sq w] obtain res where
    "checkWin ?g 3 = Inr res"
    "res = no_win \<or>
       (\<exists>s line. res = \<lparr>winner = Some s, winningLine = Some line\<rparr> \<and> s \<noteq> [] \<and>
          int (length line) = 3)"
    by blast
  then show ?thesis
    using sq w by blast
qed

section \<open>Ultimate rules engine\<close>

text \<open>
  \<^verbatim>\<open>a % b\<close> of JavaScript takes the sign of the dividend; \<^verbatim>\<open>Math.floor(a / 3)\<close> is
  \<open>a div 3\<close>, which rounds down in HOL as well.
\<close>

definition js_rem :: "int \<Rightarrow> int \<Rightarrow> int" where
  "js_rem a b = sgn a * (\<bar>a\<bar> mod \<bar>b\<bar>)"

text \<open>\<^verbatim>\<open>getLocalBoardIndex\<close>, lines 120-122.\<close>

definition getLocalBoardIndex :: "int \<Rightarrow> int \<Rightarrow> int" where
  "getLocalBoardIndex row col = (row div 3) * 3 + col div 3"

text \<open>\<^verbatim>\<open>getLocalCellCoords\<close>, lines 125-130: \<open>(localRow, localCol)\<close>.\<close>

definition getLocalCellCoords :: "int \<Rightarrow> int \<Rightarrow> int \<times> int" where
  "getLocalCellCoords row col = (js_rem row 3, js_rem col 3)"

text \<open>
  \<^verbatim>\<open>Array(k).fill(null).map((_, i) => f(i))\<close> where \<open>f\<close> may throw: the elements are
  computed in order and the first exception ends the call.
\<close>

fun map_result :: "('a \<Rightarrow> js_error + 'b) \<Rightarrow> 'a list \<Rightarrow> js_error + 'b list" where
  "map_result f [] = Inr []"
| "map_result f (x # xs) =
     (case f x of
        Inl e \<Rightarrow> Inl e
      | Inr y \<Rightarrow> (case map_result f xs of Inl e \<Rightarrow> Inl e | Inr ys \<Rightarrow> Inr (y # ys)))"

text \<open>\<^verbatim>\<open>getLocalBoard\<close>, lines 133-142.\<close>

definition getLocalBoard :: "grid \<Rightarrow> int \<Rightarrow> js_error + grid" where
  "getLocalBoard g boardIndex =
     (let startRow = (boardIndex div 3) * 3;
          startCol = js_rem boardIndex 3 * 3
      in map_result
           (\<lambda>row. map_result (\<lambda>col. cell_at g (startRow + row) (startCol + col)) [0, 1, 2])
           [0, 1, 2])"

text \<open>\<^verbatim>\<open>board.every(row => row.every(cell => cell !== ''))\<close>\<close>

definition every_cell_filled :: "grid \<Rightarrow> bool" where
  "every_cell_filled g = list_all (\<lambda>row. list_all (\<lambda>v. v \<noteq> Str []) row) g"

text \<open>\<^verbatim>\<open>isLocalBoardFull\<close>, lines 145-148.\<close>

definition isLocalBoardFull :: "grid \<Rightarrow> int \<Rightarrow> js_error + bool" where
  "isLocalBoardFull g boardIndex =
     (case getLocalBoard g boardIndex of
        Inl e \<Rightarrow> Inl e
      | Inr localBoard \<Rightarrow> Inr (every_cell_filled localBoard))"

text \<open>\<^verbatim>\<open>checkLocalWinner\<close>, lines 151-155.\<close>

definition checkLocalWinner :: "grid \<Rightarrow> int \<Rightarrow> js_error + string option" where
  "checkLocalWinner g boardIndex =
     (case getLocalBoard g boardIndex of
        Inl e \<Rightarrow> Inl e
      | Inr localBoard \<Rightarrow>
          (case checkWin localBoard 3 of
             Inl e \<Rightarrow> Inl e
           | Inr result \<Rightarrow> Inr (winner result)))"

text \<open>\<^verbatim>\<open>getLocalWinners\<close>, lines 158-160. An entry \<open>None\<close> is \<^verbatim>\<open>null\<close>.\<close>

definition getLocalWinners :: "grid \<Rightarrow> js_error + string option list" where
  "getLocalWinners g = map_result (\<lambda>index. checkLocalWinner g index) [0, 1, 2, 3, 4, 5, 6, 7, 8]"

text \<open>
  \<^verbatim>\<open>localWinners[i] || ''\<close>: a read out of range (\<^verbatim>\<open>undefined\<close>), \<^verbatim>\<open>null\<close> and the
  empty string are falsy and give \<^verbatim>\<open>''\<close>.
\<close>

definition winner_or_empty :: "string option list \<Rightarrow> int \<Rightarrow> string" where
  "winner_or_empty localWinners i =
     (case index localWinners i of
        None \<Rightarrow> []
      | Some None \<Rightarrow> []
      | Some (Some s) \<Rightarrow> if s = [] then [] else s)"

text \<open>
  \<^verbatim>\<open>checkGlobalWinner\<close>, lines 163-178. The winning line of the classic check is
  mapped with \<^verbatim>\<open>([row, col]) => [row * 3 + col]\<close>: every entry of the result is a
  one-element array. An array is truthy, so \<^verbatim>\<open>if (result.winningLine)\<close> tests for
  \<^verbatim>\<open>null\<close>.
\<close>

definition checkGlobalWinner :: "string option list \<Rightarrow> js_error + (int list) win_result" where
  "checkGlobalWinner localWinners =
     (let localGrid =
            map (\<lambda>row. map (\<lambda>col. Str (winner_or_empty localWinners (row * 3 + col))) [0, 1, 2])
              [0, 1, 2]
      in case checkWin localGrid 3 of
           Inl e \<Rightarrow> Inl e
         | Inr result \<Rightarrow>
             (case winningLine result of
                Some line \<Rightarrow>
                  Inr \<lparr>winner = winner result,
                       winningLine = Some (map (\<lambda>(row, col). [row * 3 + col]) line)\<rparr>
              | None \<Rightarrow> Inr \<lparr>winner = winner result, winningLine = None\<rparr>))"

text \<open>
  \<^verbatim>\<open>getTargetBoard\<close>, lines 181-191. \<^verbatim>\<open>localWinners[t] !== null\<close> is also true when
  the read is out of range; \<^verbatim>\<open>||\<close> evaluates \<^verbatim>\<open>isLocalBoardFull\<close> only when its left
  side is false.
\<close>

definition getTargetBoard :: "int \<Rightarrow> int \<Rightarrow> grid \<Rightarrow> string option list \<Rightarrow> js_error + int option" where
  "getTargetBoard lastMoveRow lastMoveCol g localWinners =
     (let (localRow, localCol) = getLocalCellCoords lastMoveRow lastMoveCol;
          targetBoardIndex = localRow * 3 + localCol
      in if index localWinners targetBoardIndex \<noteq> Some None then Inr None
         else (case isLocalBoardFull g targetBoardIndex of
                 Inl e \<Rightarrow> Inl e
               | Inr full \<Rightarrow> if full then Inr None else Inr (Some targetBoardIndex)))"

text \<open>
  \<^verbatim>\<open>UltimateGameLogic.isValidMove\<close>, lines 194-208. \<^verbatim>\<open>!grid[row]\<close> guards the
  second read, so the function does not throw.
\<close>

definition Ultimate_isValidMove :: "grid \<Rightarrow> int \<Rightarrow> int \<Rightarrow> int option \<Rightarrow> bool" where
  "Ultimate_isValidMove g row col targetBoard =
     (case index g row of
        None \<Rightarrow> False
      | Some r \<Rightarrow>
          if (case index r col of None \<Rightarrow> Undefined | Some v \<Rightarrow> v) \<noteq> Str [] then False
          else (case targetBoard of
                  None \<Rightarrow> True
                | Some t \<Rightarrow> getLocalBoardIndex row col = t))"

text \<open>
  \<^verbatim>\<open>UltimateGameLogic.checkDraw\<close>, lines 211-217. \<^verbatim>\<open>if (globalResult.winner)\<close> is
  a truthiness test: \<^verbatim>\<open>null\<close> and the empty string are falsy.
\<close>

definition truthy :: "string option \<Rightarrow> bool" where
  "truthy v = (case v of None \<Rightarrow> False | Some s \<Rightarrow> s \<noteq> [])"

definition Ultimate_checkDraw :: "grid \<Rightarrow> string option list \<Rightarrow> js_error + bool" where
  "Ultimate_checkDraw g localWinners =
     (case checkGlobalWinner localWinners of
        Inl e \<Rightarrow> Inl e
      | Inr globalResult \<Rightarrow>
          if truthy (winner globalResult) then Inr False
          else Inr (every_cell_filled g))"

subsection \<open>Notions of the claims\<close>

text \<open>A 9 by 9 grid; the cells of sub-board \<open>k\<close>, read with plain indexing; a sub-board
  with no empty cell.\<close>

definition grid9 :: "grid \<Rightarrow> bool" where
  "grid9 g = (length g = 9 \<and> list_all (\<lambda>row. length row = 9) g)"

definition sub_board :: "grid \<Rightarrow> nat \<Rightarrow> grid" where
  "sub_board g k = [[g ! (3 * (k div 3) + i) ! (3 * (k mod 3) + j). j \<leftarrow> [0..<3]]. i \<leftarrow> [0..<3]]"

definition sub_board_full :: "grid \<Rightarrow> nat \<Rightarrow> bool" where
  "sub_board_full g k =
     list_all (\<lambda>i. list_all (\<lambda>j. g ! (3 * (k div 3) + i) ! (3 * (k mod 3) + j) \<noteq> Str []) [0..<3]) [0..<3]"

text \<open>The 3 by 3 grid that \<^verbatim>\<open>checkGlobalWinner\<close> builds from the local winners.\<close>

definition meta_grid :: "string option list \<Rightarrow> grid" where
  "meta_grid lw = map (\<lambda>row. map (\<lambda>col. Str (winner_or_empty lw (row * 3 + col))) [0, 1, 2]) [0, 1, 2]"

text \<open>
  Two 9 by 9 positions used as concrete inputs. In the first, sub-board 0 is won by
  \<^verbatim>\<open>X\<close> on its top row and still has empty cells. In the second, every sub-board
  is the full, drawn board \<^verbatim>\<open>XOX / XOO / OXX\<close>.
\<close>

definition won_corner_grid :: grid where
  "won_corner_grid =
     [[Str ''X'', Str ''X'', Str ''X''] @ replicate 6 (Str []),
      [Str [], Str ''O'', Str []] @ replicate 6 (Str []),
      [Str [], Str [], Str ''O''] @ replicate 6 (Str [])]
     @ replicate 6 (replicate 9 (Str []))"

definition drawn_grid :: grid where
  "drawn_grid =
     concat (replicate 3
       [concat (replicate 3 [Str ''X'', Str ''O'', Str ''X'']),
        concat (replicate 3 [Str ''X'', Str ''O'', Str ''O'']),
        concat (replicate 3 [Str ''O'', Str ''X'', Str ''X''])])"

subsection \<open>The engine on 9 by 9 grids\<close>

lemma grid9_row: "grid9 g \<Longrightarrow> i < 9 \<Longrightarrow> length (g ! i) = 9"
  by (simp add: grid9_def list_all_length)

lemma cell_at_grid9:
  assumes "grid9 g" and "0 \<le> r" and "r < 9" and "0 \<le> c" and "c < 9"
  shows "cell_at g r c = Inr (g ! nat r ! nat c)"
proof -
  have "nat r < 9"
    using assms(2,3) by (simp add: nat_less_iff)
  then have "length (g ! nat r) = 9"
    using assms(1) by (rule grid9_row [rotated])
  moreover have "length g = 9"
    using assms(1) by (simp add: grid9_def)
  ultimately show ?thesis
    using assms(2-5) by (simp add: cell_at_def index_def)
qed

lemma board_index_cases:
  "0 \<le> k \<Longrightarrow> k \<le> 8 \<Longrightarrow> k = 0 \<or> k = 1 \<or> k = 2 \<or> k = 3 \<or> k = 4 \<or> k = 5 \<or> k = 6 \<or> k = 7 \<or> k = (8::int)"
  by arith

lemma upt_3: "[0..<3] = [0, 1, 2]"
  by (simp add: upt_rec)

lemma getLocalBoard_grid9:
  assumes "grid9 g" and "0 \<le> k" and "k \<le> 8"
  shows "getLocalBoard g k = Inr (sub_board g (nat k))"
proof -
  note c = cell_at_grid9 [OF assms(1)]
  from board_index_cases [OF assms(2,3)] show ?thesis
    by (elim disjE) (simp_all add: getLocalBoard_def sub_board_def js_rem_def upt_3 c)
qed

lemma every_cell_filled_sub_board:
  "every_cell_filled (sub_board g k) = sub_board_full g k"
  by (simp add: every_cell_filled_def sub_board_def sub_board_full_def list.pred_map comp_def)

lemma isLocalBoardFull_grid9:
  "grid9 g \<Longrightarrow> 0 \<le> k \<Longrightarrow> k \<le> 8 \<Longrightarrow> isLocalBoardFull g k = Inr (sub_board_full g (nat k))"
  by (simp add: isLocalBoardFull_def getLocalBoard_grid9 every_cell_filled_sub_board)

lemma square_sub_board: "square (sub_board g k)"
  by (simp add: square_def sub_board_def upt_3)

lemma checkLocalWinner_grid9:
  assumes "grid9 g" and "0 \<le> k" and "k \<le> 8"
  shows "checkLocalWinner g k = Inr (winner (spec_checkWin (sub_board g (nat k)) 3))"
proof -
  have "checkWin (sub_board g (nat k)) (int 3) = Inr (spec_checkWin (sub_board g (nat k)) 3)"
    by (rule checkWin_refines [OF square_sub_board]) simp
  then show ?thesis
    using getLocalBoard_grid9 [OF assms] by (simp add: checkLocalWinner_def)
qed

lemma getLocalWinners_grid9:
  assumes "grid9 g"
  shows "getLocalWinners g =
     Inr (map (\<lambda>k. winner (spec_checkWin (sub_board g k) 3)) [0, 1, 2, 3, 4, 5, 6, 7, 8])"
  by (simp add: getLocalWinners_def checkLocalWinner_grid9 [OF assms])

lemma js_rem_nonneg: "0 \<le> a \<Longrightarrow> js_rem a 3 = a mod 3"
  by (cases "a = 0") (simp_all add: js_rem_def)

lemma grid9_won_corner_grid: "grid9 won_corner_grid"
  by (simp add: grid9_def won_corner_grid_def list_all_iff)

lemma sub_board_full_cell:
  assumes "sub_board_full g k" and "i < 3" and "j < 3"
  shows "g ! (3 * (k div 3) + i) ! (3 * (k mod 3) + j) \<noteq> Str []"
  using assms by (simp add: sub_board_full_def list_all_iff)

lemma square_meta_grid: "square (meta_grid lw)"
  by (simp add: square_def meta_grid_def)

lemma small_index_cases: "0 \<le> k \<Longrightarrow> k < 3 \<Longrightarrow> k = 0 \<or> k = 1 \<or> k = (2::int)"
  by arith

lemma meta_grid_cell:
  assumes "0 \<le> r" and "r < 3" and "0 \<le> c" and "c < 3"
  shows "meta_grid lw ! nat r ! nat c = Str (winner_or_empty lw (r * 3 + c))"
  using small_index_cases [OF assms(1,2)] small_index_cases [OF assms(3,4)]
  by (elim disjE) (simp_all add: meta_grid_def)

lemma winner_or_empty_index:
  "winner_or_empty lw k = s \<Longrightarrow> s \<noteq> [] \<Longrightarrow> index lw k = Some (Some s)"
  by (auto simp: winner_or_empty_def split: option.splits if_splits)

lemma checkGlobalWinner_result:
  "\<exists>res. checkGlobalWinner lw = Inr res \<and>
     (res = no_win \<or>
      (\<exists>s line. res = \<lparr>winner = Some s, winningLine = Some (map (\<lambda>(r, c). [r * 3 + c]) line)\<rparr> \<and>
         s \<noteq> [] \<and>
         (\<forall>q\<in>set line. 0 \<le> fst q \<and> fst q < 3 \<and> 0 \<le> snd q \<and> snd q < 3 \<and>
            index lw (fst q * 3 + snd q) = Some (Some s))))"
proof -
  obtain res where res: "checkWin (meta_grid lw) 3 = Inr res"
    and alt: "res = no_win \<or> is_win_of (meta_grid lw) 3 res"
    using checkWin_result [OF square_meta_grid, of 3 lw] by auto
  show ?thesis
  proof (cases "res = no_win")
    case True
    then have "checkGlobalWinner lw = Inr no_win"
      using res by (simp add: checkGlobalWinner_def meta_grid_def no_win_def)
    then show ?thesis by blast
  next
    case False
    then obtain s line where w: "res = win (s, line)" "s \<noteq> []"
      and cells: "\<forall>q\<in>set line. in_grid (meta_grid lw) q \<and>
                    meta_grid lw ! nat (fst q) ! nat (snd q) = Str s"
      using alt unfolding is_win_of_def by blast
    have len: "int (length (meta_grid lw)) = 3"
      by (simp add: meta_grid_def)
    have "0 \<le> fst q \<and> fst q < 3 \<and> 0 \<le> snd q \<and> snd q < 3 \<and>
            index lw (fst q * 3 + snd q) = Some (Some s)" if "q \<in> set line" for q
    proof -
      have b: "0 \<le> fst q" "fst q < 3" "0 \<le> snd q" "snd q < 3"
        and v: "meta_grid lw ! nat (fst q) ! nat (snd q) = Str s"
        using cells that len by (simp_all add: in_grid_def)
      have "winner_or_empty lw (fst q * 3 + snd q) = s"
        using v meta_grid_cell [OF b, of lw] by simp
      then show ?thesis
        using b w(2) winner_or_empty_index by blast
    qed
    moreover have "checkGlobalWinner lw =
        Inr \<lparr>winner = Some s, winningLine = Some (map (\<lambda>(r, c). [r * 3 + c]) line)\<rparr>"
      using res w(1) by (simp add: checkGlobalWinner_def meta_grid_def win_def)
    ultimately show ?thesis
      using w(2) by blast
  qed
qed

lemma every_cell_filled_grid9:
  assumes "grid9 g"
  shows "every_cell_filled g = (\<forall>r<9. \<forall>c<9. g ! r ! c \<noteq> Str [])"
proof -
  have "length g = 9" and "\<forall>r<9. length (g ! r) = 9"
    using assms by (simp_all add: grid9_def list_all_length)
  then show ?thesis
    by (simp add: every_cell_filled_def list_all_length)
qed

subsection \<open>Claims about the Ultimate engine\<close>

text \<open>
  C3. For every 9 by 9 grid and in-bounds last move \<open>(r, c)\<close>, with
  \<open>lw = getLocalWinners(grid)\<close> (which returns, a list of nine entries):
  \<^verbatim>\<open>getTargetBoard(r, c, grid, lw)\<close> returns \<^verbatim>\<open>null\<close> if the sub-board with index
  \<open>(r mod 3) * 3 + (c mod 3)\<close> has a non-null local winner or has no empty cell, and
  otherwise returns exactly that index.
\<close>

theorem getTargetBoard_correct:
  assumes "grid9 g" and "0 \<le> r" and "r < 9" and "0 \<le> c" and "c < 9"
  shows "\<exists>lw. getLocalWinners g = Inr lw \<and> length lw = 9 \<and>
           getTargetBoard r c g lw =
             Inr (if lw ! (nat r mod 3 * 3 + nat c mod 3) \<noteq> None
                     \<or> sub_board_full g (nat r mod 3 * 3 + nat c mod 3)
                  then None
                  else Some (int (nat r mod 3 * 3 + nat c mod 3)))"
proof -
  let ?lw = "map (\<lambda>k. winner (spec_checkWin (sub_board g k) 3)) [0, 1, 2, 3, 4, 5, 6, 7, 8]"
  let ?t = "r mod 3 * 3 + c mod 3"
  have lw: "getLocalWinners g = Inr ?lw"
    using assms(1) by (rule getLocalWinners_grid9)
  have coords: "getLocalCellCoords r c = (r mod 3, c mod 3)"
    using assms(2,4) by (simp add: getLocalCellCoords_def js_rem_nonneg)
  have t0: "0 \<le> ?t" and t8: "?t \<le> 8"
    by simp_all
  have nt: "nat ?t = nat r mod 3 * 3 + nat c mod 3"
    using assms(2,4) by (simp add: nat_add_distrib nat_mult_distrib nat_mod_distrib)
  have idx: "index ?lw ?t = Some (?lw ! nat ?t)"
    using t0 t8 by (simp add: index_def)
  have full: "isLocalBoardFull g ?t = Inr (sub_board_full g (nat ?t))"
    using assms(1) t0 t8 by (rule isLocalBoardFull_grid9)
  have "getTargetBoard r c g ?lw =
          Inr (if ?lw ! nat ?t \<noteq> None \<or> sub_board_full g (nat ?t) then None else Some ?t)"
    unfolding getTargetBoard_def coords Let_def prod.case idx full by simp
  moreover have "int (nat ?t) = ?t"
    using t0 by simp
  ultimately have "getTargetBoard r c g ?lw =
          Inr (if ?lw ! (nat r mod 3 * 3 + nat c mod 3) \<noteq> None
                  \<or> sub_board_full g (nat r mod 3 * 3 + nat c mod 3)
               then None else Some (int (nat r mod 3 * 3 + nat c mod 3)))"
    unfolding nt [symmetric] by simp
  then show ?thesis
    using lw by simp
qed


theorem getTargetBoard_correct_witness:
  "grid9 won_corner_grid \<and> (0::int) \<le> 0 \<and> (0::int) < 9 \<and> (0::int) \<le> 1 \<and> (1::int) < 9 \<and>
   getLocalWinners won_corner_grid = Inr [Some ''X'', None, None, None, None, None, None, None, None] \<and>
   getTargetBoard 0 1 won_corner_grid [Some ''X'', None, None, None, None, None, None, None, None]
     = Inr (Some 1)"
proof -
  have lw: "getLocalWinners won_corner_grid = Inr [Some ''X'', None, None, None, None, None, None, None, None]"
    by code_simp
  have nf: "\<not> sub_board_full won_corner_grid 1"
    by code_simp
  from getTargetBoard_correct [OF grid9_won_corner_grid, of 0 1]
  have "getTargetBoard 0 1 won_corner_grid [Some ''X'', None, None, None, None, None, None, None, None]
     = Inr (Some 1)"
    using lw nf by simp
  then show ?thesis
    using lw grid9_won_corner_grid by simp
qed

text \<open>
  C2, as stated, fails: in \<open>won_corner_grid\<close> the cell \<open>(1, 0)\<close> is empty and lies
  in sub-board 0, which \<^verbatim>\<open>X\<close> has won; with no target board the move is accepted.
\<close>

theorem Ultimate_isValidMove_won_board_counterexample:
  "Ultimate_isValidMove won_corner_grid 1 0 None \<and>
   getLocalBoardIndex 1 0 = 0 \<and>
   checkLocalWinner won_corner_grid 0 = Inr (Some ''X'')"
  by code_simp

text \<open>
  C2 (amended). For every 9 by 9 grid and in-bounds \<open>(row, col)\<close>, when the target
  board is \<^verbatim>\<open>null\<close>, \<^verbatim>\<open>isValidMove\<close> returns true exactly when the cell is empty
  (\<^verbatim>\<open>// If no target board restriction, any empty cell is valid\<close>). Hence a free
  move is never placed into a full sub-board, which has no empty cell; whether the
  sub-board is already won is not looked at.
\<close>

theorem Ultimate_isValidMove_free:
  assumes "grid9 g" and "0 \<le> row" and "row < 9" and "0 \<le> col" and "col < 9"
  shows "Ultimate_isValidMove g row col None = (g ! nat row ! nat col = Str []) \<and>
         (Ultimate_isValidMove g row col None \<longrightarrow>
            \<not> sub_board_full g (nat (getLocalBoardIndex row col)))"
proof -
  have r: "nat row < 9"
    using assms(2,3) by (simp add: nat_less_iff)
  then have lr: "length (g ! nat row) = 9"
    using assms(1) by (rule grid9_row [rotated])
  have lg: "length g = 9"
    using assms(1) by (simp add: grid9_def)
  have valid: "Ultimate_isValidMove g row col None = (g ! nat row ! nat col = Str [])"
    using assms(2-5) lr lg by (simp add: Ultimate_isValidMove_def index_def)
  have "\<not> sub_board_full g (nat (getLocalBoardIndex row col))"
    if e: "g ! nat row ! nat col = Str []"
  proof
    let ?k = "nat (getLocalBoardIndex row col)"
    assume full: "sub_board_full g ?k"
    have k: "?k = nat row div 3 * 3 + nat col div 3"
      using assms(2,4)
      by (simp add: getLocalBoardIndex_def nat_add_distrib nat_mult_distrib nat_div_distrib)
    have c3: "nat col div 3 < 3"
      using assms(4,5) by (simp add: nat_less_iff less_mult_imp_div_less)
    have kd: "?k div 3 = nat row div 3" and km: "?k mod 3 = nat col div 3"
      unfolding k using c3 by simp_all
    have "g ! (3 * (?k div 3) + nat row mod 3) ! (3 * (?k mod 3) + nat col mod 3) \<noteq> Str []"
      using full by (rule sub_board_full_cell) simp_all
    then show False
      using e unfolding kd km by simp
  qed
  then show ?thesis
    using valid by simp
qed


theorem Ultimate_isValidMove_free_witness:
  "grid9 won_corner_grid \<and> (0::int) \<le> 1 \<and> (1::int) < 9 \<and> (0::int) \<le> 0 \<and> (0::int) < 9 \<and>
   Ultimate_isValidMove won_corner_grid 1 0 None \<and>
   won_corner_grid ! nat 1 ! nat 0 = Str [] \<and>
   \<not> sub_board_full won_corner_grid (nat (getLocalBoardIndex 1 0))"
proof -
  have e: "won_corner_grid ! nat 1 ! nat 0 = Str []"
    by (simp add: won_corner_grid_def)
  from Ultimate_isValidMove_free [OF grid9_won_corner_grid, of 1 0]
  have "Ultimate_isValidMove won_corner_grid 1 0 None"
    and "\<not> sub_board_full won_corner_grid (nat (getLocalBoardIndex 1 0))"
    using e by simp_all
  then show ?thesis
    using e grid9_won_corner_grid by simp
qed

text \<open>
  C5. For every list of local winners (of any length, so of nine entries too),
  \<^verbatim>\<open>checkGlobalWinner\<close> returns, and when its winning line is not \<^verbatim>\<open>null\<close> every
  entry of the line is a one-element array \<^verbatim>\<open>[k]\<close> holding a sub-board index
  \<open>k\<close> in the range 0 to 8, the index of a sub-board won by the reported winner;
  no entry is a \<^verbatim>\<open>[row, col]\<close> pair.
\<close>

theorem checkGlobalWinner_line_indices:
  "\<exists>res. checkGlobalWinner lw = Inr res \<and>
     (\<forall>line. winningLine res = Some line \<longrightarrow>
        (\<forall>e\<in>set line. \<exists>k. e = [k] \<and> 0 \<le> k \<and> k \<le> 8 \<and>
           winner res \<noteq> None \<and> index lw k = Some (winner res)))"
proof -
  from checkGlobalWinner_result [of lw] obtain res where res: "checkGlobalWinner lw = Inr res"
    and alt: "res = no_win \<or>
      (\<exists>s line. res = \<lparr>winner = Some s, winningLine = Some (map (\<lambda>(r, c). [r * 3 + c]) line)\<rparr> \<and>
         s \<noteq> [] \<and>
         (\<forall>q\<in>set line. 0 \<le> fst q \<and> fst q < 3 \<and> 0 \<le> snd q \<and> snd q < 3 \<and>
            index lw (fst q * 3 + snd q) = Some (Some s)))"
    by blast
  have "\<exists>k. e = [k] \<and> 0 \<le> k \<and> k \<le> 8 \<and> winner res \<noteq> None \<and> index lw k = Some (winner res)"
    if l: "winningLine res = Some line" and e: "e \<in> set line" for line e
  proof -
    have "res \<noteq> no_win"
      using l by (auto simp: no_win_def)
    then obtain s cells where r: "res = \<lparr>winner = Some s, winningLine = Some (map (\<lambda>(r, c). [r * 3 + c]) cells)\<rparr>"
      and c: "\<forall>q\<in>set cells. 0 \<le> fst q \<and> fst q < 3 \<and> 0 \<le> snd q \<and> snd q < 3 \<and>
            index lw (fst q * 3 + snd q) = Some (Some s)"
      using alt by blast
    have "line = map (\<lambda>(r, c). [r * 3 + c]) cells"
      using l r by simp
    then obtain q where q: "q \<in> set cells" "e = [fst q * 3 + snd q]"
      using e by (auto simp: case_prod_beta)
    have "0 \<le> fst q * 3 + snd q \<and> fst q * 3 + snd q \<le> 8 \<and>
          index lw (fst q * 3 + snd q) = Some (Some s)"
      using c q(1) by auto
    then show ?thesis
      using q(2) r by auto
  qed
  then show ?thesis
    using res by blast
qed


theorem checkGlobalWinner_line_indices_witness:
  "checkGlobalWinner [Some ''X'', None, Some ''O'', None, Some ''X'', Some ''O'', None, None, Some ''X'']
     = Inr \<lparr>winner = Some ''X'', winningLine = Some [[0], [4], [8]]\<rparr> \<and>
   (\<exists>k. [4] = [k] \<and> 0 \<le> k \<and> k \<le> 8 \<and>
      index [Some ''X'', None, Some ''O'', None, Some ''X'', Some ''O'', None, None, Some ''X''] k = Some (Some ''X''))"
proof -
  let ?lw = "[Some ''X'', None, Some ''O'', None, Some ''X'', Some ''O'', None, None, Some ''X'']"
  have ev: "checkGlobalWinner ?lw = Inr \<lparr>winner = Some ''X'', winningLine = Some [[0], [4], [8]]\<rparr>"
    by code_simp
  from checkGlobalWinner_line_indices [of ?lw] obtain res where
    "checkGlobalWinner ?lw = Inr res"
    "\<forall>line. winningLine res = Some line \<longrightarrow>
        (\<forall>e\<in>set line. \<exists>k. e = [k] \<and> 0 \<le> k \<and> k \<le> 8 \<and>
           winner res \<noteq> None \<and> index ?lw k = Some (winner res))"
    by blast
  then have "\<forall>e\<in>set [[0], [4], [8]]. \<exists>k. e = [k] \<and> 0 \<le> k \<and> k \<le> 8 \<and>
           index ?lw k = Some (Some ''X'')"
    using ev by auto
  then have "\<exists>k. [4] = [k] \<and> 0 \<le> k \<and> k \<le> 8 \<and> index ?lw k = Some (Some ''X'')"
    by simp
  then show ?thesis
    using ev by blast
qed

text \<open>
  C6. For every 9 by 9 grid with \<open>lw = getLocalWinners(grid)\<close>:
  \<^verbatim>\<open>checkDraw(grid, lw)\<close> returns false when \<^verbatim>\<open>checkGlobalWinner(lw)\<close> reports a
  non-null winner, and otherwise returns true exactly when every one of the 81 cells
  is non-empty.
\<close>

theorem Ultimate_checkDraw_correct:
  assumes "grid9 g"
  shows "\<exists>lw res. getLocalWinners g = Inr lw \<and> checkGlobalWinner lw = Inr res \<and>
           Ultimate_checkDraw g lw =
             Inr (if winner res \<noteq> None then False
                  else (\<forall>r<9. \<forall>c<9. g ! r ! c \<noteq> Str []))"
proof -
  obtain lw where lw: "getLocalWinners g = Inr lw"
    using getLocalWinners_grid9 [OF assms] by blast
  obtain res where res: "checkGlobalWinner lw = Inr res"
    and alt: "res = no_win \<or>
      (\<exists>s line. res = \<lparr>winner = Some s, winningLine = Some (map (\<lambda>(r, c). [r * 3 + c]) line)\<rparr> \<and>
         s \<noteq> [] \<and>
         (\<forall>q\<in>set line. 0 \<le> fst q \<and> fst q < 3 \<and> 0 \<le> snd q \<and> snd q < 3 \<and>
            index lw (fst q * 3 + snd q) = Some (Some s)))"
    using checkGlobalWinner_result [of lw] by blast
  have "truthy (winner res) = (winner res \<noteq> None)"
    using alt by (auto simp: truthy_def no_win_def)
  then have "Ultimate_checkDraw g lw =
             Inr (if winner res \<noteq> None then False
                  else (\<forall>r<9. \<forall>c<9. g ! r ! c \<noteq> Str []))"
    using res by (simp add: Ultimate_checkDraw_def every_cell_filled_grid9 [OF assms])
  then show ?thesis
    using lw res by blast
qed

theorem Ultimate_checkDraw_correct_witness:
  "grid9 drawn_grid \<and>
   getLocalWinners drawn_grid = Inr (replicate 9 None) \<and>
   checkGlobalWinner (replicate 9 None) = Inr no_win \<and>
   Ultimate_checkDraw drawn_grid (replicate 9 None) = Inr True"
proof -
  have g9: "grid9 drawn_grid"
    by code_simp
  have lw: "getLocalWinners drawn_grid = Inr (replicate 9 None)"
    by code_simp
  have res: "checkGlobalWinner (replicate 9 None) = Inr no_win"
    by code_simp
  have "every_cell_filled drawn_grid"
    by code_simp
  then have filled: "\<forall>r<9. \<forall>c<9. drawn_grid ! r ! c \<noteq> Str []"
    using every_cell_filled_grid9 [OF g9] by simp
  from Ultimate_checkDraw_correct [OF g9]
  have "Ultimate_checkDraw drawn_grid (replicate 9 None) = Inr True"
    using lw res filled by (simp add: no_win_def)
  then show ?thesis
    using g9 lw res by simp
qed

section \<open>Room synchronisation client\<close>

subsection \<open>Rows, the store and the environment\<close>

text \<open>
  \<^verbatim>\<open>types/game.ts\<close> and the \<^verbatim>\<open>rooms\<close> table of the migration. A row and a
  \<^verbatim>\<open>GameRoom\<close> differ in the representation of the grid only, which is the
  parameter of the record. The timestamps \<^verbatim>\<open>created_at\<close> and \<^verbatim>\<open>updated_at\<close> are
  maintained by the table and never read by the client; they are left out.
\<close>

datatype game_mode = Classic | Ultimate

datatype player_status = Player | Viewer

datatype player_symbol = SymbolX | SymbolO | SymbolNone

record player =
  name :: string
  status :: player_status
  symbol :: player_symbol
  client_id :: string

record 'g room =
  room_code :: string
  mode :: game_mode
  grid_size :: "int option"
  win_length :: "int option"
  players :: "player list"
  grid :: 'g
  restart_votes :: "(string \<times> bool) list"
  match_id :: int

text \<open>
  \<^verbatim>\<open>JSON.stringify\<close> and \<^verbatim>\<open>JSON.parse\<close> belong to the language, not to the
  repository. The client only ever encodes matrices of strings, so a JSON text is
  modelled by the matrix it encodes, and every other text by \<open>Malformed\<close>, on which
  \<^verbatim>\<open>JSON.parse\<close> throws.
\<close>

datatype json_text = Encoded "string list list" | Malformed

definition JSON_stringify :: "string list list \<Rightarrow> json_text" where
  "JSON_stringify m = Encoded m"

definition JSON_parse :: "json_text \<Rightarrow> js_error + string list list" where
  "JSON_parse t = (case t of Encoded m \<Rightarrow> Inr m | Malformed \<Rightarrow> Inl SyntaxError)"

text \<open>The value of the \<^verbatim>\<open>grid\<close> column as \<^verbatim>\<open>parseGrid\<close> distinguishes it: a string
  or an array of strings.\<close>

datatype grid_data = GString json_text | GArray "json_text list"

type_synonym room_row = "grid_data room"

type_synonym GameRoom = "string list list room"

text \<open>
  The columns \<^verbatim>\<open>grid_size\<close>, \<^verbatim>\<open>win_length\<close> and \<^verbatim>\<open>match_id\<close> of the
  migration are of type \<^verbatim>\<open>INT\<close>, a signed 32-bit integer: the table refuses a
  value outside that range with the error 22003 (numeric value out of range); it
  does not wrap around.
\<close>

definition fits_int4 :: "int \<Rightarrow> bool" where
  "fits_int4 k = (- 2147483648 \<le> k \<and> k \<le> 2147483647)"

definition columns_fit :: "room_row \<Rightarrow> bool" where
  "columns_fit r =
     ((case grid_size r of None \<Rightarrow> True | Some n \<Rightarrow> fits_int4 n) \<and>
      (case win_length r of None \<Rightarrow> True | Some k \<Rightarrow> fits_int4 k) \<and>
      fits_int4 (match_id r))"

text \<open>
  The constraints of the migration: the two \<^verbatim>\<open>CHECK\<close>s on \<^verbatim>\<open>grid_size\<close> and
  \<^verbatim>\<open>win_length\<close> (a \<^verbatim>\<open>NULL\<close> passes a check) and the trigger
  \<^verbatim>\<open>validate_classic_settings\<close>, which runs before every insert and update. The
  check on \<^verbatim>\<open>mode\<close> holds by the type.
\<close>

definition constraints_ok :: "room_row \<Rightarrow> bool" where
  "constraints_ok r =
     ((case grid_size r of None \<Rightarrow> True | Some n \<Rightarrow> 3 \<le> n \<and> n \<le> 10) \<and>
      (case win_length r of None \<Rightarrow> True | Some k \<Rightarrow> 3 \<le> k) \<and>
      (if mode r = Classic
       then (case grid_size r of
               None \<Rightarrow> False
             | Some n \<Rightarrow> (case win_length r of None \<Rightarrow> False | Some k \<Rightarrow> k \<le> n))
       else True))"

text \<open>A row that the table can hold: its integers fit their columns and it passes the
  constraints.\<close>

definition row_ok :: "room_row \<Rightarrow> bool" where
  "row_ok r = (columns_fit r \<and> constraints_ok r)"

text \<open>The columns an \<^verbatim>\<open>update\<close> call sets.\<close>

datatype column_update =
    SetPlayers "player list"
  | SetGrid grid_data
  | SetRestartVotes "(string \<times> bool) list"
  | SetMatchId int

fun apply_update :: "column_update \<Rightarrow> room_row \<Rightarrow> room_row" where
  "apply_update (SetPlayers ps) r = r\<lparr>players := ps\<rparr>"
| "apply_update (SetGrid gd) r = r\<lparr>grid := gd\<rparr>"
| "apply_update (SetRestartVotes vs) r = r\<lparr>restart_votes := vs\<rparr>"
| "apply_update (SetMatchId m) r = r\<lparr>match_id := m\<rparr>"

text \<open>The requests the client sends, in the order it sends them.\<close>

datatype request =
    Lookup string
  | SelectRow string
  | InsertRow room_row
  | UpdateRow string "column_update list"

text \<open>
  Everything outside the client that its methods read or change: the table (a map
  from the primary key to the row), the log of requests, the browser's
  \<^verbatim>\<open>localStorage\<close>, and the two random sources of \<^verbatim>\<open>crypto\<close>, each an infinite
  supply with the number of values already drawn. The store is reliable: a request
  fails only for the reasons written below, never for a lost connection.
\<close>

record world =
  rooms :: "string \<rightharpoonup> room_row"
  requests :: "request list"
  localStorage :: "string \<rightharpoonup> string"
  entropy :: "nat \<Rightarrow> 8 word"
  entropy_used :: nat
  uuids :: "nat \<Rightarrow> string"
  uuids_used :: nat

text \<open>\<^verbatim>\<open>.select('room_code').eq('room_code', code).maybeSingle()\<close>: the row or \<^verbatim>\<open>null\<close>.\<close>

definition maybe_single :: "string \<Rightarrow> world \<Rightarrow> room_row option \<times> world" where
  "maybe_single code w = (rooms w code, w\<lparr>requests := requests w @ [Lookup code]\<rparr>)"

text \<open>\<^verbatim>\<open>.select('*').eq('room_code', code).single()\<close>: an error when no row matches.\<close>

definition select_single :: "string \<Rightarrow> world \<Rightarrow> (js_error + room_row) \<times> world" where
  "select_single code w =
     (case rooms w code of
        None \<Rightarrow> Inl (PostgrestError ''no rows'')
      | Some r \<Rightarrow> Inr r,
      w\<lparr>requests := requests w @ [SelectRow code]\<rparr>)"

text \<open>\<^verbatim>\<open>.insert(row).select().single()\<close>: refused for an integer that does not fit
  its column, a duplicate key or a violated constraint; otherwise the stored row
  comes back.\<close>

definition insert_row :: "room_row \<Rightarrow> world \<Rightarrow> (js_error + room_row) \<times> world" where
  "insert_row r w =
     (if \<not> columns_fit r then
        (Inl (PostgrestError ''integer out of range''), w\<lparr>requests := requests w @ [InsertRow r]\<rparr>)
      else if rooms w (room_code r) \<noteq> None then
        (Inl (PostgrestError ''duplicate key''), w\<lparr>requests := requests w @ [InsertRow r]\<rparr>)
      else if \<not> constraints_ok r then
        (Inl (PostgrestError ''constraint''), w\<lparr>requests := requests w @ [InsertRow r]\<rparr>)
      else
        (Inr r, w\<lparr>requests := requests w @ [InsertRow r], rooms := (rooms w)(room_code r \<mapsto> r)\<rparr>))"

text \<open>\<^verbatim>\<open>.update(columns).eq('room_code', code)\<close>: sets the given columns of the
  matching row and leaves the others; no row matching is not an error. An update
  whose new row does not fit the columns or violates a constraint is refused and
  changes nothing.\<close>

definition update_row :: "string \<Rightarrow> column_update list \<Rightarrow> world \<Rightarrow> (js_error + unit) \<times> world" where
  "update_row code ups w =
     (case rooms w code of
        None \<Rightarrow> (Inr (), w\<lparr>requests := requests w @ [UpdateRow code ups]\<rparr>)
      | Some r \<Rightarrow>
          (let r' = fold apply_update ups r in
           if \<not> columns_fit r' then
             (Inl (PostgrestError ''integer out of range''),
              w\<lparr>requests := requests w @ [UpdateRow code ups]\<rparr>)
           else if \<not> constraints_ok r' then
             (Inl (PostgrestError ''constraint''), w\<lparr>requests := requests w @ [UpdateRow code ups]\<rparr>)
           else
             (Inr (), w\<lparr>requests := requests w @ [UpdateRow code ups], rooms := (rooms w)(code \<mapsto> r')\<rparr>)))"

text \<open>\<^verbatim>\<open>crypto.randomUUID()\<close>\<close>

definition randomUUID :: "world \<Rightarrow> string \<times> world" where
  "randomUUID w = (uuids w (uuids_used w), w\<lparr>uuids_used := Suc (uuids_used w)\<rparr>)"

text \<open>\<^verbatim>\<open>crypto.getRandomValues(new Uint8Array(n))\<close>\<close>

definition getRandomValues :: "nat \<Rightarrow> world \<Rightarrow> 8 word list \<times> world" where
  "getRandomValues n w =
     (map (entropy w) [entropy_used w..<entropy_used w + n], w\<lparr>entropy_used := entropy_used w + n\<rparr>)"

text \<open>\<^verbatim>\<open>Array(n).fill(null).map(() => Array(n).fill(''))\<close>: \<^verbatim>\<open>Array(n)\<close> throws a
  \<^verbatim>\<open>RangeError\<close> unless \<open>0 \<le> n < 2 ^ 32\<close>.\<close>

definition empty_matrix :: "int \<Rightarrow> js_error + string list list" where
  "empty_matrix n =
     (if n < 0 \<or> 2 ^ 32 \<le> n then Inl RangeError
      else Inr (replicate (nat n) (replicate (nat n) [])))"

subsection \<open>\<^verbatim>\<open>GameService\<close>\<close>

text \<open>\<^verbatim>\<open>generateRoomCode\<close>, lines 6-17.\<close>

definition chars :: string where
  "chars = ''0123456789ABCDEF''"

definition generateRoomCode :: "world \<Rightarrow> string \<times> world" where
  "generateRoomCode w =
     (let (array, w') = getRandomValues 5 w
      in (map (\<lambda>b. chars ! (unat b mod 16)) array, w'))"

text \<open>\<^verbatim>\<open>createEmptyGrid\<close>, lines 20-24. \<^verbatim>\<open>gridSize || 3\<close>: \<^verbatim>\<open>undefined\<close> and 0 give 3.\<close>

definition createEmptyGrid :: "game_mode \<Rightarrow> int option \<Rightarrow> js_error + grid_data" where
  "createEmptyGrid m gridSize =
     (let n = (if m = Ultimate then 9
               else (case gridSize of None \<Rightarrow> 3 | Some k \<Rightarrow> if k = 0 then 3 else k))
      in case empty_matrix n of
           Inl e \<Rightarrow> Inl e
         | Inr matrix \<Rightarrow> Inr (GArray [JSON_stringify matrix]))"

text \<open>\<^verbatim>\<open>parseGrid\<close>, lines 37-45.\<close>

definition parseGrid :: "grid_data \<Rightarrow> js_error + string list list" where
  "parseGrid gridData =
     (case gridData of
        GString t \<Rightarrow> JSON_parse t
      | GArray [] \<Rightarrow> Inr []
      | GArray (t # _) \<Rightarrow> JSON_parse t)"

text \<open>
  The loop of \<^verbatim>\<open>createRoom\<close>, lines 59-70, with its variables \<^verbatim>\<open>attempts\<close> and
  \<^verbatim>\<open>roomCode\<close>; it returns their final values.
\<close>

definition maxAttempts :: nat where
  "maxAttempts = 10"

function generate_unique :: "nat \<Rightarrow> string \<Rightarrow> world \<Rightarrow> (nat \<times> string) \<times> world" where
  "generate_unique attempts roomCode w =
     (if attempts < maxAttempts then
        (let (code, w1) = generateRoomCode w;
             (existing, w2) = maybe_single code w1
         in if existing = None then ((attempts, code), w2)
            else generate_unique (attempts + 1) code w2)
      else ((attempts, roomCode), w))"
  by pat_completeness auto
termination
  by (relation "measure (\<lambda>(attempts, roomCode, w). maxAttempts - attempts)") auto

text \<open>\<^verbatim>\<open>createRoom\<close>, lines 48-110. \<open>None\<close> for \<^verbatim>\<open>gridSize\<close> or \<^verbatim>\<open>winLength\<close> is
  an argument left out; it is stored as \<^verbatim>\<open>NULL\<close>.\<close>

definition createRoom :: "game_mode \<Rightarrow> string \<Rightarrow> int option \<Rightarrow> int option \<Rightarrow> world
    \<Rightarrow> (js_error + GameRoom) \<times> world" where
  "createRoom m playerName gridSize winLength w =
     (let ((attempts, roomCode), w1) = generate_unique 0 [] w in
      if attempts = maxAttempts then
        (Inl (Error ''Failed to generate unique room code''), w1)
      else
        (let (clientId, w2) = randomUUID w1;
             p = \<lparr>name = playerName, status = Player, symbol = SymbolX, client_id = clientId\<rparr>
         in case createEmptyGrid m gridSize of
              Inl e \<Rightarrow> (Inl e, w2)
            | Inr emptyGrid \<Rightarrow>
                (let roomData =
                       \<lparr>room_code = roomCode, mode = m,
                        grid_size = (if m = Classic then gridSize else None),
                        win_length = (if m = Classic then winLength else None),
                        players = [p], grid = emptyGrid, restart_votes = [], match_id = 0\<rparr>
                 in case insert_row roomData w2 of
                      (Inl e, w3) \<Rightarrow> (Inl e, w3)
                    | (Inr data, w3) \<Rightarrow>
                        (let w4 = w3\<lparr>localStorage :=
                                        (localStorage w3)(''client_id_'' @ roomCode \<mapsto> clientId)\<rparr>
                         in case parseGrid (grid data) of
                              Inl e \<Rightarrow> (Inl e, w4)
                            | Inr g \<Rightarrow>
                                (Inr \<lparr>room_code = room_code data, mode = mode data,
                                      grid_size = grid_size data, win_length = win_length data,
                                      players = players data, grid = g,
                                      restart_votes = restart_votes data,
                                      match_id = match_id data\<rparr>, w4)))))"

text \<open>
  \<^verbatim>\<open>makeMove\<close>, lines 162-185. After \<^verbatim>\<open>single()\<close> without an error the row is
  present, so \<^verbatim>\<open>if (!room)\<close> does not fire. The two \<^verbatim>\<open>map\<close>s compare the indices
  with \<^verbatim>\<open>row\<close> and \<^verbatim>\<open>col\<close>; \<open>s\<close> is the parameter \<^verbatim>\<open>symbol\<close>.
\<close>

definition makeMove :: "string \<Rightarrow> int \<Rightarrow> int \<Rightarrow> string \<Rightarrow> world \<Rightarrow> (js_error + unit) \<times> world" where
  "makeMove roomCode row col s w =
     (case select_single roomCode w of
        (Inl fetchError, w1) \<Rightarrow> (Inl fetchError, w1)
      | (Inr room, w1) \<Rightarrow>
          (case parseGrid (grid room) of
             Inl e \<Rightarrow> (Inl e, w1)
           | Inr currentGrid \<Rightarrow>
               (let newGrid =
                      map (\<lambda>(rowIndex, gridRow).
                             map (\<lambda>(colIndex, c).
                                    if int rowIndex = row \<and> int colIndex = col then s else c)
                               (enumerate 0 gridRow))
                        (enumerate 0 currentGrid)
                in update_row roomCode [SetGrid (GArray [JSON_stringify newGrid])] w1)))"

text \<open>\<^verbatim>\<open>resetGame\<close>, lines 209-235. \<^verbatim>\<open>room.grid_size || 3\<close>: \<^verbatim>\<open>null\<close> and 0 give 3.\<close>

definition resetGame :: "string \<Rightarrow> int \<Rightarrow> world \<Rightarrow> (js_error + unit) \<times> world" where
  "resetGame roomCode currentMatchId w =
     (case select_single roomCode w of
        (Inl fetchError, w1) \<Rightarrow> (Inl fetchError, w1)
      | (Inr room, w1) \<Rightarrow>
          if match_id room \<noteq> currentMatchId then (Inr (), w1)
          else
            (let gridSize =
                   (if mode room = Ultimate then 9
                    else (case grid_size room of None \<Rightarrow> 3 | Some n \<Rightarrow> if n = 0 then 3 else n))
             in case empty_matrix gridSize of
                  Inl e \<Rightarrow> (Inl e, w1)
                | Inr emptyGrid \<Rightarrow>
                    update_row roomCode
                      [SetGrid (GArray [JSON_stringify emptyGrid]),
                       SetRestartVotes [],
                       SetMatchId (currentMatchId + 1)] w1))"

subsection \<open>Notions of the claims\<close>

text \<open>The \<open>k\<close>-th room code that \<^verbatim>\<open>generateRoomCode\<close> will produce from the world
  \<open>w\<close>, and the size of a room's grid as the specification words it.\<close>

definition nth_code :: "world \<Rightarrow> nat \<Rightarrow> string" where
  "nth_code w k =
     map (\<lambda>i. chars ! (unat (entropy w (entropy_used w + 5 * k + i)) mod 16)) [0..<5]"

definition room_size :: "room_row \<Rightarrow> nat" where
  "room_size r =
     (if mode r = Ultimate then 9 else (case grid_size r of None \<Rightarrow> 3 | Some n \<Rightarrow> nat n))"

text \<open>The world after \<open>j\<close> attempts that all found their code taken, and the grid
  that \<^verbatim>\<open>makeMove\<close> computes as \<^verbatim>\<open>newGrid\<close>.\<close>

definition after_attempts :: "world \<Rightarrow> nat \<Rightarrow> world" where
  "after_attempts w j =
     w\<lparr>requests := requests w @ map (\<lambda>k. Lookup (nth_code w k)) [0..<j],
       entropy_used := entropy_used w + 5 * j\<rparr>"

definition newGrid_of :: "int \<Rightarrow> int \<Rightarrow> string \<Rightarrow> string list list \<Rightarrow> string list list" where
  "newGrid_of row col s g =
     map (\<lambda>(rowIndex, gridRow).
            map (\<lambda>(colIndex, c). if int rowIndex = row \<and> int colIndex = col then s else c)
              (enumerate 0 gridRow))
       (enumerate 0 g)"

text \<open>
  A concrete world: one classic 3 by 3 room with code \<^verbatim>\<open>00000\<close>, match 4, both
  restart votes cast and \<^verbatim>\<open>X\<close> on cell \<open>(0, 0)\<close>; a random source that only
  yields the byte 0, so that every generated code is \<^verbatim>\<open>00000\<close>.
\<close>

definition example_row :: room_row where
  "example_row =
     \<lparr>room_code = ''00000'', mode = Classic, grid_size = Some 3, win_length = Some 3,
      players = [\<lparr>name = ''Ada'', status = Player, symbol = SymbolX, client_id = ''c1''\<rparr>],
      grid = GArray [Encoded [[''X'', [], []], [[], [], []], [[], [], []]]],
      restart_votes = [(''X'', True), (''O'', True)], match_id = 4\<rparr>"

definition last_match_row :: room_row where
  "last_match_row = example_row\<lparr>match_id := 2147483647\<rparr>"

definition last_match_world :: world where
  "last_match_world =
     \<lparr>rooms = [''00000'' \<mapsto> last_match_row], requests = [], localStorage = Map.empty,
      entropy = (\<lambda>_. 0), entropy_used = 0, uuids = (\<lambda>_. ''u''), uuids_used = 0\<rparr>"

definition example_world :: world where
  "example_world =
     \<lparr>rooms = [''00000'' \<mapsto> example_row], requests = [], localStorage = Map.empty,
      entropy = (\<lambda>_. 0), entropy_used = 0, uuids = (\<lambda>_. ''u''), uuids_used = 0\<rparr>"

subsection \<open>Lemmas about the client\<close>

lemma map_upt_shift: "map f [a..<a + n] = map (\<lambda>i. f (a + i)) [0..<n]"
  by (induction n) simp_all

lemma generateRoomCode_after:
  "generateRoomCode (after_attempts w j) =
     (nth_code w j, (after_attempts w j)\<lparr>entropy_used := entropy_used w + 5 * j + 5\<rparr>)"
  by (simp add: generateRoomCode_def getRandomValues_def after_attempts_def nth_code_def
      map_upt_shift comp_def)

lemma attempt_step:
  "maybe_single (nth_code w j) ((after_attempts w j)\<lparr>entropy_used := entropy_used w + 5 * j + 5\<rparr>) =
     (rooms w (nth_code w j), after_attempts w (Suc j))"
  by (simp add: maybe_single_def after_attempts_def)

lemma generate_unique_exhausted:
  assumes "\<forall>k<10. rooms w (nth_code w k) \<noteq> None"
  shows "j \<le> 10 \<Longrightarrow> \<exists>c'. generate_unique j c (after_attempts w j) = ((10, c'), after_attempts w 10)"
proof (induction "10 - j" arbitrary: j c)
  case 0
  then have "j = 10" by simp
  then show ?case
    by (subst generate_unique.simps) (simp add: maxAttempts_def)
next
  case (Suc d)
  then have j: "j < 10" and d: "d = 10 - Suc j" and le: "Suc j \<le> 10"
    by simp_all
  have ex: "rooms w (nth_code w j) \<noteq> None"
    using assms j by simp
  obtain c' where "generate_unique (Suc j) (nth_code w j) (after_attempts w (Suc j)) =
      ((10, c'), after_attempts w 10)"
    using Suc.hyps(1) [OF d le] by blast
  then show ?case
    using j ex
    by (subst generate_unique.simps)
       (simp add: maxAttempts_def generateRoomCode_after attempt_step)
qed

lemma after_attempts_0: "after_attempts w 0 = w"
  by (simp add: after_attempts_def)

lemma row_ok_update:
  "columns_fit (r\<lparr>grid := gd\<rparr>) = columns_fit r"
  "constraints_ok (r\<lparr>grid := gd\<rparr>) = constraints_ok r"
  "constraints_ok (r\<lparr>grid := gd, restart_votes := vs, match_id := k\<rparr>) = constraints_ok r"
  by (simp_all add: columns_fit_def constraints_ok_def cong: option.case_cong)

lemma columns_fit_match_id:
  "columns_fit r \<Longrightarrow>
     columns_fit (r\<lparr>grid := gd, restart_votes := vs, match_id := k\<rparr>) = fits_int4 k"
  by (simp add: columns_fit_def cong: option.case_cong)

lemma empty_matrix_room_size:
  assumes "row_ok r"
  shows "empty_matrix (if mode r = Ultimate then 9
                       else (case grid_size r of None \<Rightarrow> 3 | Some n \<Rightarrow> if n = 0 then 3 else n))
         = Inr (replicate (room_size r) (replicate (room_size r) []))"
proof (cases "mode r")
  case Classic
  then obtain n where n: "grid_size r = Some n" "3 \<le> n" "n \<le> 10"
    using assms by (auto simp: row_ok_def constraints_ok_def split: option.splits)
  then show ?thesis
    using Classic by (simp add: empty_matrix_def room_size_def)
next
  case Ultimate
  then show ?thesis
    by (simp add: empty_matrix_def room_size_def)
qed

lemma newGrid_shape:
  "length (newGrid_of row col s g) = length g \<and>
     (\<forall>i<length g. length (newGrid_of row col s g ! i) = length (g ! i) \<and>
        (\<forall>j<length (g ! i).
           newGrid_of row col s g ! i ! j = (if int i = row \<and> int j = col then s else g ! i ! j)))"
  by (simp add: newGrid_of_def nth_enumerate_eq)

lemma example_world_row: "rooms example_world ''00000'' = Some example_row"
  by (simp add: example_world_def)

lemma row_ok_example_row: "row_ok example_row"
  by (simp add: row_ok_def columns_fit_def constraints_ok_def fits_int4_def example_row_def)

lemma parseGrid_example_row:
  "parseGrid (grid example_row) = Inr [[''X'', [], []], [[], [], []], [[], [], []]]"
  by (simp add: example_row_def parseGrid_def JSON_parse_def)

subsection \<open>Claims about the client\<close>

text \<open>
  C8, as stated for every stored row, fails in the equal branch for the row whose
  \<^verbatim>\<open>match_id\<close> is 2147483647, the largest value of the column: \<^verbatim>\<open>resetGame\<close>
  sends the update with \<^verbatim>\<open>match_id: 2147483648\<close>, the table refuses it,
  \<^verbatim>\<open>resetGame\<close> throws that error and the row stays as it was.
\<close>

theorem resetGame_last_match_counterexample:
  "rooms last_match_world ''00000'' = Some last_match_row \<and>
   row_ok last_match_row \<and>
   match_id last_match_row = 2147483647 \<and>
   fst (resetGame ''00000'' 2147483647 last_match_world)
     = Inl (PostgrestError ''integer out of range'') \<and>
   rooms (snd (resetGame ''00000'' 2147483647 last_match_world)) = rooms last_match_world"
  by (simp add: last_match_world_def last_match_row_def example_row_def row_ok_def
      columns_fit_def constraints_ok_def fits_int4_def resetGame_def select_single_def
      update_row_def empty_matrix_def)

text \<open>
  C8 (amended). For every stored row (a row the table can hold) and every
  \<open>currentMatchId\<close>: if the row's \<^verbatim>\<open>match_id\<close> differs, \<^verbatim>\<open>resetGame\<close> returns
  without an error after its read, sends no update and leaves the table unchanged;
  if it is equal and below 2147483647, \<^verbatim>\<open>resetGame\<close> sends one update that sets the
  grid to the all-empty grid of the room's size (9 for ultimate, \<^verbatim>\<open>grid_size\<close> for
  classic), the votes to the empty map and \<^verbatim>\<open>match_id\<close> to \<open>currentMatchId + 1\<close>,
  and the stored row changes in these three columns only; if it is equal to
  2147483647, the same update is sent, the table refuses it, \<^verbatim>\<open>resetGame\<close> throws
  the store's error and the table is unchanged.
\<close>

theorem resetGame_effect:
  assumes "rooms w code = Some r" and "row_ok r"
  shows "resetGame code currentMatchId w =
     (if match_id r \<noteq> currentMatchId then
        (Inr (), w\<lparr>requests := requests w @ [SelectRow code]\<rparr>)
      else if currentMatchId < 2147483647 then
        (Inr (),
         w\<lparr>requests := requests w @
             [SelectRow code,
              UpdateRow code
                [SetGrid (GArray [JSON_stringify (replicate (room_size r) (replicate (room_size r) []))]),
                 SetRestartVotes [],
                 SetMatchId (currentMatchId + 1)]],
           rooms := (rooms w)(code \<mapsto>
             r\<lparr>grid := GArray [JSON_stringify (replicate (room_size r) (replicate (room_size r) []))],
               restart_votes := [],
               match_id := currentMatchId + 1\<rparr>)\<rparr>)
      else
        (Inl (PostgrestError ''integer out of range''),
         w\<lparr>requests := requests w @
             [SelectRow code,
              UpdateRow code
                [SetGrid (GArray [JSON_stringify (replicate (room_size r) (replicate (room_size r) []))]),
                 SetRestartVotes [],
                 SetMatchId (currentMatchId + 1)]]\<rparr>))"
proof (cases "match_id r = currentMatchId")
  case False
  then show ?thesis
    using assms(1) by (simp add: resetGame_def select_single_def)
next
  case True
  have fit: "columns_fit r" and ok: "constraints_ok r"
    using assms(2) by (simp_all add: row_ok_def)
  have low: "- 2147483648 \<le> currentMatchId"
    using fit True by (simp add: columns_fit_def fits_int4_def)
  have range: "fits_int4 (currentMatchId + 1) = (currentMatchId < 2147483647)"
    using low by (auto simp: fits_int4_def)
  show ?thesis
    using True assms(1) ok
    by (simp add: resetGame_def select_single_def Let_def empty_matrix_room_size [OF assms(2)]
        update_row_def row_ok_update columns_fit_match_id [OF fit] range)
qed

theorem resetGame_effect_witness:
  "rooms example_world ''00000'' = Some example_row \<and> row_ok example_row \<and>
   resetGame ''00000'' 3 example_world =
     (Inr (), example_world\<lparr>requests := [SelectRow ''00000'']\<rparr>) \<and>
   fst (resetGame ''00000'' 4 example_world) = Inr () \<and>
   rooms (snd (resetGame ''00000'' 4 example_world)) ''00000'' =
     Some (example_row\<lparr>grid := GArray [Encoded [[[], [], []], [[], [], []], [[], [], []]]],
                       restart_votes := [], match_id := 5\<rparr>)"
proof -
  have m: "match_id example_row = 4" and sz: "room_size example_row = 3"
    and rq: "requests example_world = []"
    by (simp_all add: example_row_def room_size_def example_world_def)
  have rep: "replicate 3 (replicate 3 []) = [[[], [], []], [[], [], []], [[], [], []::string]]"
    by (simp add: numeral_3_eq_3)
  have stale: "resetGame ''00000'' 3 example_world =
     (Inr (), example_world\<lparr>requests := [SelectRow ''00000'']\<rparr>)"
    using resetGame_effect [OF example_world_row row_ok_example_row, of 3] m rq by simp
  have fresh: "fst (resetGame ''00000'' 4 example_world) = Inr ()"
    "rooms (snd (resetGame ''00000'' 4 example_world)) ''00000'' =
     Some (example_row\<lparr>grid := GArray [Encoded [[[], [], []], [[], [], []], [[], [], []]]],
                       restart_votes := [], match_id := 5\<rparr>)"
    using resetGame_effect [OF example_world_row row_ok_example_row, of 4] m sz rep
    by (simp_all add: JSON_stringify_def)
  show ?thesis
    using example_world_row row_ok_example_row stale fresh by simp
qed

text \<open>
  C9. If the store holds a row for each of the ten codes that the random source
  yields next, \<^verbatim>\<open>createRoom\<close> fails with the error
  \<^verbatim>\<open>Failed to generate unique room code\<close> after exactly ten generations (fifty
  random bytes), each followed by one existence lookup; it sends no insert, and the
  table, the local storage and the UUID source are as before.
\<close>

theorem createRoom_exhausted:
  assumes "\<forall>k<10. rooms w (nth_code w k) \<noteq> None"
  shows "createRoom m playerName gridSize winLength w =
     (Inl (Error ''Failed to generate unique room code''),
      w\<lparr>requests := requests w @ map (\<lambda>k. Lookup (nth_code w k)) [0..<10],
        entropy_used := entropy_used w + 50\<rparr>)"
proof -
  obtain c' where "generate_unique 0 [] (after_attempts w 0) = ((10, c'), after_attempts w 10)"
    using generate_unique_exhausted [OF assms, of 0 "[]"] by blast
  then have "generate_unique 0 [] w = ((10, c'), after_attempts w 10)"
    by (simp add: after_attempts_0)
  then show ?thesis
    by (simp add: createRoom_def maxAttempts_def after_attempts_def)
qed


theorem createRoom_exhausted_witness:
  "createRoom Classic ''Bob'' (Some 3) (Some 3) example_world =
     (Inl (Error ''Failed to generate unique room code''),
      example_world\<lparr>requests := replicate 10 (Lookup ''00000''), entropy_used := 50\<rparr>)"
proof -
  have code: "nth_code example_world k = ''00000''" for k
    by (simp add: nth_code_def example_world_def chars_def upt_rec)
  have busy: "\<forall>k<10. rooms example_world (nth_code example_world k) \<noteq> None"
    by (simp add: code) (simp add: example_world_def)
  have "map (\<lambda>k. Lookup (nth_code example_world k)) [0..<10] = replicate 10 (Lookup ''00000'')"
    by (simp add: code map_replicate_const)
  moreover have "requests example_world = []" and "entropy_used example_world = 0"
    by (simp_all add: example_world_def)
  ultimately show ?thesis
    using createRoom_exhausted [OF busy, of Classic "''Bob''" "Some 3" "Some 3"] by simp
qed

text \<open>
  C10. For every stored row whose grid column parses to \<open>g\<close>, and every
  \<open>row\<close>, \<open>col\<close> and \<open>s\<close>: \<^verbatim>\<open>makeMove\<close> succeeds and sends, after its read,
  one update of the grid column alone; the grid written has the shape of \<open>g\<close>, holds
  \<open>s\<close> at \<open>(row, col)\<close> and the cell of \<open>g\<close> everywhere else, and the other columns
  of the row are as before. Nothing is assumed about the cell addressed or about
  whose turn it is: the write is unconditional.
\<close>

theorem makeMove_writes_cell:
  assumes "rooms w code = Some r" and "row_ok r" and "parseGrid (grid r) = Inr g"
  shows "\<exists>g'. makeMove code row col s w =
           (Inr (),
            w\<lparr>requests := requests w @
                [SelectRow code, UpdateRow code [SetGrid (GArray [JSON_stringify g'])]],
              rooms := (rooms w)(code \<mapsto> r\<lparr>grid := GArray [JSON_stringify g']\<rparr>)\<rparr>) \<and>
         parseGrid (GArray [JSON_stringify g']) = Inr g' \<and>
         length g' = length g \<and>
         (\<forall>i<length g. length (g' ! i) = length (g ! i) \<and>
            (\<forall>j<length (g ! i). g' ! i ! j = (if int i = row \<and> int j = col then s else g ! i ! j)))"
proof -
  let ?g' = "newGrid_of row col s g"
  have "makeMove code row col s w =
           (Inr (),
            w\<lparr>requests := requests w @
                [SelectRow code, UpdateRow code [SetGrid (GArray [JSON_stringify ?g'])]],
              rooms := (rooms w)(code \<mapsto> r\<lparr>grid := GArray [JSON_stringify ?g']\<rparr>)\<rparr>)"
    using assms
    by (simp add: makeMove_def select_single_def update_row_def Let_def row_ok_update row_ok_def
        newGrid_of_def)
  moreover have "parseGrid (GArray [JSON_stringify ?g']) = Inr ?g'"
    by (simp add: parseGrid_def JSON_stringify_def JSON_parse_def)
  ultimately show ?thesis
    using newGrid_shape [of row col s g] by blast
qed


theorem makeMove_writes_cell_witness:
  "rooms example_world ''00000'' = Some example_row \<and> row_ok example_row \<and>
   parseGrid (grid example_row) = Inr [[''X'', [], []], [[], [], []], [[], [], []]] \<and>
   (\<exists>g'. makeMove ''00000'' 0 0 ''O'' example_world =
           (Inr (),
            example_world\<lparr>requests :=
                [SelectRow ''00000'', UpdateRow ''00000'' [SetGrid (GArray [JSON_stringify g'])]],
              rooms := (rooms example_world)(''00000'' \<mapsto>
                         example_row\<lparr>grid := GArray [JSON_stringify g']\<rparr>)\<rparr>) \<and>
         length g' = 3 \<and> g' ! 0 ! 0 = ''O'' \<and> g' ! 0 ! 1 = [] \<and> g' ! 1 ! 0 = [])"
proof -
  let ?g = "[[''X'', [], []], [[], [], []], [[], [], []::string]]"
  have rq: "requests example_world = []"
    by (simp add: example_world_def)
  from makeMove_writes_cell [OF example_world_row row_ok_example_row parseGrid_example_row,
      of 0 0 "''O''"]
  obtain g' where mk: "makeMove ''00000'' 0 0 ''O'' example_world =
           (Inr (),
            example_world\<lparr>requests := requests example_world @
                [SelectRow ''00000'', UpdateRow ''00000'' [SetGrid (GArray [JSON_stringify g'])]],
              rooms := (rooms example_world)(''00000'' \<mapsto>
                         example_row\<lparr>grid := GArray [JSON_stringify g']\<rparr>)\<rparr>)"
    and len: "length g' = length ?g"
    and cells: "\<forall>i<length ?g. length (g' ! i) = length (?g ! i) \<and>
            (\<forall>j<length (?g ! i). g' ! i ! j = (if int i = 0 \<and> int j = 0 then ''O'' else ?g ! i ! j))"
    by blast
  have c0: "\<forall>j<length (?g ! 0). g' ! 0 ! j = (if int 0 = 0 \<and> int j = 0 then ''O'' else ?g ! 0 ! j)"
    using cells by simp
  have c1: "\<forall>j<length (?g ! 1). g' ! 1 ! j = (if int 1 = 0 \<and> int j = 0 then ''O'' else ?g ! 1 ! j)"
    using cells by simp
  have "g' ! 0 ! 0 = ''O''" and "g' ! 0 ! 1 = []"
    using c0 by simp_all
  moreover have "g' ! 1 ! 0 = []"
    using c1 by simp
  moreover have "length g' = 3"
    using len by simp
  ultimately show ?thesis
    using mk rq example_world_row row_ok_example_row parseGrid_example_row by auto
qed


end
